theory Spec2Isabelle
  imports Main "HOL-Library.Word"
begin

section \<open>Values of the plugin framework\<close>

text \<open>
  The provider is written against the Terraform plugin framework. A \<^verbatim>\<open>types.String\<close>
  is null, unknown or a known Go string; \<^verbatim>\<open>ValueString()\<close> reads the known string
  and yields the empty string for the two other forms. \<^verbatim>\<open>types.Int64\<close> has the
  same three forms over a 64-bit integer.
\<close>

datatype tfString = StringNull | StringUnknown | StringValue string

fun IsNull :: "tfString \<Rightarrow> bool" where
  "IsNull StringNull = True"
| "IsNull StringUnknown = False"
| "IsNull (StringValue s) = False"

fun IsUnknown :: "tfString \<Rightarrow> bool" where
  "IsUnknown StringNull = False"
| "IsUnknown StringUnknown = True"
| "IsUnknown (StringValue s) = False"

fun ValueString :: "tfString \<Rightarrow> string" where
  "ValueString StringNull = []"
| "ValueString StringUnknown = []"
| "ValueString (StringValue s) = s"

datatype tfInt64 = Int64Null | Int64Unknown | Int64Value "64 word"

subsection \<open>Diagnostics\<close>

text \<open>
  A diagnostic carries a severity, a summary and a detail; an attribute diagnostic also
  names the root attribute it is about. \<^verbatim>\<open>Append\<close> skips a diagnostic that the
  collection already holds, and \<^verbatim>\<open>AddError\<close> and \<^verbatim>\<open>AddAttributeError\<close> go
  through \<^verbatim>\<open>Append\<close>.
\<close>

datatype severity = SeverityError | SeverityWarning

datatype diagnostic =
    ErrorDiagnostic string string
  | AttributeErrorDiagnostic string string string
  | WarningDiagnostic string string

type_synonym diagnostics = "diagnostic list"

fun Severity :: "diagnostic \<Rightarrow> severity" where
  "Severity (ErrorDiagnostic summary detail) = SeverityError"
| "Severity (AttributeErrorDiagnostic path summary detail) = SeverityError"
| "Severity (WarningDiagnostic summary detail) = SeverityWarning"

fun Summary :: "diagnostic \<Rightarrow> string" where
  "Summary (ErrorDiagnostic summary detail) = summary"
| "Summary (AttributeErrorDiagnostic path summary detail) = summary"
| "Summary (WarningDiagnostic summary detail) = summary"

fun Detail :: "diagnostic \<Rightarrow> string" where
  "Detail (ErrorDiagnostic summary detail) = detail"
| "Detail (AttributeErrorDiagnostic path summary detail) = detail"
| "Detail (WarningDiagnostic summary detail) = detail"

fun HasError :: "diagnostics \<Rightarrow> bool" where
  "HasError [] = False"
| "HasError (d # ds) = (if Severity d = SeverityError then True else HasError ds)"

fun Contains :: "diagnostics \<Rightarrow> diagnostic \<Rightarrow> bool" where
  "Contains [] d = False"
| "Contains (x # xs) d = (if x = d then True else Contains xs d)"

fun Append :: "diagnostics \<Rightarrow> diagnostics \<Rightarrow> diagnostics" where
  "Append ds [] = ds"
| "Append ds (d # rest) = Append (if Contains ds d then ds else ds @ [d]) rest"

definition AddError :: "diagnostics \<Rightarrow> string \<Rightarrow> string \<Rightarrow> diagnostics" where
  "AddError ds summary detail = Append ds [ErrorDiagnostic summary detail]"

definition AddAttributeError :: "diagnostics \<Rightarrow> string \<Rightarrow> string \<Rightarrow> string \<Rightarrow> diagnostics" where
  "AddAttributeError ds path summary detail =
     Append ds [AttributeErrorDiagnostic path summary detail]"

subsection \<open>Requests, responses and the log\<close>

text \<open>
  \<^verbatim>\<open>Get(ctx, &target)\<close> on the plan, state or configuration of a request decodes it
  into a model struct and returns diagnostics; the request data is represented by
  that pair. A response is passed by pointer: every operation below takes the
  response it is given and returns it updated. The state of a response is absent
  (\<open>None\<close>) or holds a model; \<^verbatim>\<open>State.Set\<close> stores the model. The model structs of
  this provider carry the attribute names and types of their schemas, so the
  conversion in \<^verbatim>\<open>Set\<close> produces no diagnostic.

  \<^verbatim>\<open>tflog\<close> writes to the logger of the context; the operations return the entries
  they write, in order, as level and message. Structured fields of an entry are not
  represented.
\<close>

record 'm tfsdk_data =
  Get_diags :: diagnostics
  Get_target :: 'm

definition Get :: "'m tfsdk_data \<Rightarrow> diagnostics \<times> 'm" where
  "Get d = (Get_diags d, Get_target d)"

record Response =
  Diagnostics :: diagnostics

record 'm StateResponse = Response +
  State :: "'m option"

definition State_Set :: "'m option \<Rightarrow> 'm \<Rightarrow> diagnostics \<times> 'm option" where
  "State_Set st m = ([], Some m)"

datatype level = Info | Debug

type_synonym tflog = "(level \<times> string) list"

subsection \<open>The remote API client library\<close>

text \<open>
  The client library is an external collaborator. Its entry points are parameters of
  the model: \<^verbatim>\<open>api.Init\<close>, \<^verbatim>\<open>api.Post[int]\<close> and \<^verbatim>\<open>api.Get\<close> at the two result
  types the provider uses. A call yields the message of its error (\<open>Inl\<close>) or the
  \<^verbatim>\<open>Result\<close> of its response (\<open>Inr\<close>); a call is taken to return. A
  \<^verbatim>\<open>*api.HTTPClient\<close> is a pointer: \<open>None\<close> is nil. Go's \<^verbatim>\<open>int\<close> is taken at 64 bits.
\<close>

record ConnectionDetails =
  Server :: string
  User :: string
  conn_Password :: string
  CAcert :: string
  Insecure :: bool

record user_details =
  First_names :: string
  First_name :: string
  Last_name :: string
  details_Email :: string
  Org_id :: "64 word"
  Org_name :: string
  Prefix :: string
  Last_login_date :: string
  Created_date :: string
  details_Enabled :: bool
  Use_pam :: bool
  Read_only :: bool
  Errata_notification :: bool

record user_api =
  api_Id :: "64 word"
  api_Login :: string
  Login_UC :: string
  Enabled :: bool

record 'c api =
  Init :: "ConnectionDetails \<Rightarrow> string + 'c option"
  Post_int :: "'c option \<Rightarrow> string \<Rightarrow> (string \<rightharpoonup> string) \<Rightarrow> string + 64 word"
  Get_user_details :: "'c option \<Rightarrow> string \<Rightarrow> string + user_details"
  Get_user_list :: "'c option \<Rightarrow> string \<Rightarrow> string + user_api list"

text \<open>
  Provider data reaches a resource as a value of Go's \<^verbatim>\<open>any\<close>: nil, a
  \<^verbatim>\<open>*api.HTTPClient\<close>, or a value of another dynamic type, of which the code only
  prints the type name (\<^verbatim>\<open>%T\<close>).
\<close>

datatype 'c go_any = NilData | HTTPClient_ptr "'c option" | OtherData string

section \<open>The users data source\<close>

record userModel =
  ID :: tfInt64
  userModel_Login :: tfString

record UsersDataSourceModel =
  Users :: "userModel list"

record 'c UsersDataSource =
  ds_client :: "'c option"

definition NewUsersDataSource :: "'c UsersDataSource" where
  "NewUsersDataSource = \<lparr>ds_client = None\<rparr>"

text \<open>
  The loop of \<^verbatim>\<open>Read\<close>: one \<^verbatim>\<open>append\<close> to \<^verbatim>\<open>state.Users\<close> per record. The
  conversion \<^verbatim>\<open>int64(this_user.Id)\<close> is the identity at 64 bits.
\<close>

fun map_users :: "user_api list \<Rightarrow> UsersDataSourceModel \<Rightarrow> UsersDataSourceModel" where
  "map_users [] state = state"
| "map_users (this_user # rest) state =
     (let userState = \<lparr>ID = Int64Value (api_Id this_user),
                        userModel_Login = StringValue (api_Login this_user)\<rparr>
      in map_users rest (state\<lparr>Users := Users state @ [userState]\<rparr>))"

definition UsersDataSource_Read ::
  "'c api \<Rightarrow> 'c UsersDataSource \<Rightarrow> UsersDataSourceModel StateResponse
     \<Rightarrow> UsersDataSourceModel StateResponse" where
  "UsersDataSource_Read A d resp =
     (let state = \<lparr>Users = []\<rparr> in
      case Get_user_list A (ds_client d) ''user/listUsers'' of
        Inl err \<Rightarrow>
          resp\<lparr>Diagnostics := AddError (Diagnostics resp) ''Unable to Read Uyuni user'' err\<rparr>
      | Inr users \<Rightarrow>
          (let state = map_users users state;
               (diags, st) = State_Set (State resp) state;
               resp = resp\<lparr>State := st\<rparr>;
               resp = resp\<lparr>Diagnostics := Append (Diagnostics resp) diags\<rparr>
           in resp))"

definition UsersDataSource_Configure ::
  "'c UsersDataSource \<Rightarrow> 'c go_any \<Rightarrow> Response \<Rightarrow> 'c UsersDataSource \<times> Response" where
  "UsersDataSource_Configure d ProviderData resp =
     (case ProviderData of
        NilData \<Rightarrow> (d, resp)
      | HTTPClient_ptr client \<Rightarrow> (d\<lparr>ds_client := client\<rparr>, resp)
      | OtherData T \<Rightarrow>
          (d, resp\<lparr>Diagnostics := AddError (Diagnostics resp)
                 ''Unexpected Data Source Configure Type''
                 (''Expected *api.HTTPClient, got: '' @ T @
                  ''. Please report this issue to the provider developers.'')\<rparr>))"

section \<open>Printing of strings by the Go libraries\<close>

text \<open>
  \<^verbatim>\<open>String()\<close> of a \<^verbatim>\<open>types.String\<close> yields \<^verbatim>\<open><unknown>\<close>, \<^verbatim>\<open><null>\<close> or the known string
  formatted with \<^verbatim>\<open>%q\<close>, which is \<^verbatim>\<open>strconv.Quote\<close>: the string between double quotes,
  rune by rune, where a double quote and a backslash get a backslash, a printable rune
  stands for itself, and every other rune or byte is written as an escape. The
  functions below follow \<^verbatim>\<open>unicode/utf8\<close> and \<^verbatim>\<open>strconv\<close>. A byte is a \<^typ>\<open>char\<close>, a rune
  is a natural number (decoding yields at most \<^verbatim>\<open>0x10FFFF\<close>, nothing wraps), shifts and
  masks are written as division and remainder. \<^verbatim>\<open>strconv.IsPrint\<close> decides runes up to
  \<^verbatim>\<open>0xFF\<close> by comparison and the others by tables of the Go release, which are the
  parameter \<open>T\<close>.
\<close>

definition RuneError :: nat where "RuneError = 0xFFFD"
definition RuneSelf :: nat where "RuneSelf = 0x80"
definition MaxRune :: nat where "MaxRune = 0x10FFFF"

definition lowerhex :: "nat \<Rightarrow> char" where
  "lowerhex n = ''0123456789abcdef'' ! n"

definition DecodeRuneInString :: "string \<Rightarrow> nat \<times> nat" where
  "DecodeRuneInString s =
     (let n = length s in
      if n < 1 then (RuneError, 0)
      else
        (let s0 = (of_char (s ! 0) :: nat) in
         if s0 < 0x80 then (s0, 1)
         else if s0 < 0xC2 \<or> 0xF4 < s0 then (RuneError, 1)
         else
           (let sz = (if s0 < 0xE0 then 2 else if s0 < 0xF0 then 3 else 4 :: nat);
                lo = (if s0 = 0xE0 then 0xA0 else if s0 = 0xF0 then 0x90 else 0x80 :: nat);
                hi = (if s0 = 0xED then 0x9F else if s0 = 0xF4 then 0x8F else 0xBF :: nat)
            in
            if n < sz then (RuneError, 1)
            else
              (let s1 = (of_char (s ! 1) :: nat) in
               if s1 < lo \<or> hi < s1 then (RuneError, 1)
               else if sz \<le> 2 then ((s0 mod 32) * 64 + s1 mod 64, 2)
               else
                 (let s2 = (of_char (s ! 2) :: nat) in
                  if s2 < 0x80 \<or> 0xBF < s2 then (RuneError, 1)
                  else if sz \<le> 3 then
                    ((s0 mod 16) * 4096 + (s1 mod 64) * 64 + s2 mod 64, 3)
                  else
                    (let s3 = (of_char (s ! 3) :: nat) in
                     if s3 < 0x80 \<or> 0xBF < s3 then (RuneError, 1)
                     else ((s0 mod 8) * 262144 + (s1 mod 64) * 4096
                             + (s2 mod 64) * 64 + s3 mod 64, 4)))))))"

definition ValidRune :: "nat \<Rightarrow> bool" where
  "ValidRune r = (if r < 0xD800 then True else if 0xDFFF < r \<and> r \<le> MaxRune then True else False)"

definition AppendRune :: "nat \<Rightarrow> string" where
  "AppendRune r =
     (if r \<le> 0x7F then [char_of r]
      else if r \<le> 0x7FF then [char_of (0xC0 + r div 64), char_of (0x80 + r mod 64)]
      else if r > MaxRune \<or> (0xD800 \<le> r \<and> r \<le> 0xDFFF) then
        [char_of (0xE0 + RuneError div 4096), char_of (0x80 + (RuneError div 64) mod 64),
         char_of (0x80 + RuneError mod 64)]
      else if r \<le> 0xFFFF then
        [char_of (0xE0 + r div 4096), char_of (0x80 + (r div 64) mod 64),
         char_of (0x80 + r mod 64)]
      else
        [char_of (0xF0 + r div 262144), char_of (0x80 + (r div 4096) mod 64),
         char_of (0x80 + (r div 64) mod 64), char_of (0x80 + r mod 64)])"

definition IsPrint :: "(nat \<Rightarrow> bool) \<Rightarrow> nat \<Rightarrow> bool" where
  "IsPrint T r =
     (if r \<le> 0xFF then
        (if 0x20 \<le> r \<and> r \<le> 0x7E then True
         else if 0xA1 \<le> r \<and> r \<le> 0xFF then r \<noteq> 0xAD
         else False)
      else T r)"

definition appendEscapedRune :: "(nat \<Rightarrow> bool) \<Rightarrow> nat \<Rightarrow> string" where
  "appendEscapedRune T r =
     (if r = 0x22 \<or> r = 0x5C then [CHR 0x5C, char_of r]
      else if IsPrint T r then AppendRune r
      else if r = 7 then [CHR 0x5C, CHR ''a'']
      else if r = 8 then [CHR 0x5C, CHR ''b'']
      else if r = 12 then [CHR 0x5C, CHR ''f'']
      else if r = 10 then [CHR 0x5C, CHR ''n'']
      else if r = 13 then [CHR 0x5C, CHR ''r'']
      else if r = 9 then [CHR 0x5C, CHR ''t'']
      else if r = 11 then [CHR 0x5C, CHR ''v'']
      else if r < 0x20 \<or> r = 0x7F then
        [CHR 0x5C, CHR ''x'', lowerhex ((r mod 256) div 16), lowerhex (r mod 16)]
      else if \<not> ValidRune r then
        CHR 0x5C # CHR ''u'' # map (\<lambda>s. lowerhex ((RuneError div 2 ^ s) mod 16)) [12, 8, 4, 0]
      else if r < 0x10000 then
        CHR 0x5C # CHR ''u'' # map (\<lambda>s. lowerhex ((r div 2 ^ s) mod 16)) [12, 8, 4, 0]
      else
        CHR 0x5C # CHR ''U'' #
          map (\<lambda>s. lowerhex ((r div 2 ^ s) mod 16)) [28, 24, 20, 16, 12, 8, 4, 0])"

function quote_loop :: "(nat \<Rightarrow> bool) \<Rightarrow> string \<Rightarrow> string" where
  "quote_loop T s =
     (if length s > 0 then
        (let r = (of_char (s ! 0) :: nat);
             width = (1 :: nat);
             (r, width) = (if r \<ge> RuneSelf then DecodeRuneInString s else (r, width))
         in
         (if width = 1 \<and> r = RuneError then
            [CHR 0x5C, CHR ''x'', lowerhex (of_char (s ! 0) div 16),
             lowerhex (of_char (s ! 0) mod 16)]
          else appendEscapedRune T r)
         @ quote_loop T (drop width s))
      else [])"
  by pat_completeness auto
termination
  by (relation "measure (\<lambda>(T, s). length s)")
     (auto simp: DecodeRuneInString_def Let_def split: if_splits)

declare quote_loop.simps [simp del]

definition Quote :: "(nat \<Rightarrow> bool) \<Rightarrow> string \<Rightarrow> string" where
  "Quote T s = [CHR 0x22] @ quote_loop T s @ [CHR 0x22]"

text \<open>\<^verbatim>\<open>String()\<close> of \<^verbatim>\<open>types.String\<close>.\<close>

fun tfString_String :: "(nat \<Rightarrow> bool) \<Rightarrow> tfString \<Rightarrow> string" where
  "tfString_String T StringUnknown = ''<unknown>''"
| "tfString_String T StringNull = ''<null>''"
| "tfString_String T (StringValue s) = Quote T s"

section \<open>The user resource\<close>

record userResourceModel =
  Login :: tfString
  Password :: tfString
  FirstName :: tfString
  LastName :: tfString
  Email :: tfString

record 'c userResource =
  client :: "'c option"

definition NewUserResource :: "'c userResource" where
  "NewUserResource = \<lparr>client = None\<rparr>"

text \<open>
  The log messages are built with \<^verbatim>\<open>String()\<close> of \<^verbatim>\<open>types.String\<close> and with \<^verbatim>\<open>%v\<close> of
  \<^verbatim>\<open>fmt.Sprintf\<close> at a response state and at a record of user details. The two \<^verbatim>\<open>%v\<close>
  printers and the printability tables of \<^verbatim>\<open>strconv\<close> are parameters of the model.
  \<^verbatim>\<open>%s\<close> at a Go string is the string itself.
\<close>

record printers =
  IsPrint_table :: "nat \<Rightarrow> bool"
  Sprintf_v_State :: "userResourceModel option \<Rightarrow> string"
  Sprintf_v_details :: "user_details \<Rightarrow> string"

record CreateRequest =
  Plan :: "userResourceModel tfsdk_data"

record ReadRequest =
  req_State :: "userResourceModel tfsdk_data"

record DeleteRequest =
  delete_State :: "userResourceModel tfsdk_data"

definition userResource_Create ::
  "printers \<Rightarrow> 'c api \<Rightarrow> 'c userResource \<Rightarrow> CreateRequest
     \<Rightarrow> userResourceModel StateResponse \<Rightarrow> userResourceModel StateResponse \<times> tflog" where
  "userResource_Create P A r req resp =
     (let (diags, plan) = Get (Plan req);
          resp = resp\<lparr>Diagnostics := Append (Diagnostics resp) diags\<rparr>
      in
      if HasError (Diagnostics resp) then (resp, [])
      else
        (let data = [''login'' \<mapsto> ValueString (Login plan),
                     ''password'' \<mapsto> ValueString (Password plan),
                     ''firstName'' \<mapsto> ValueString (FirstName plan),
                     ''lastName'' \<mapsto> ValueString (LastName plan),
                     ''email'' \<mapsto> ValueString (Email plan)];
             log = [(Info, ''About to create user''),
                    (Info, [] @ tfString_String (IsPrint_table P) (Login plan)
                             @ '' - '' @ tfString_String (IsPrint_table P) (Password plan)
                             @ '' - '' @ tfString_String (IsPrint_table P) (FirstName plan)
                             @ '' - '' @ tfString_String (IsPrint_table P) (LastName plan)
                             @ '' - '' @ tfString_String (IsPrint_table P) (Email plan))]
         in
         case Post_int A (client r) ''user/create'' data of
           Inl err \<Rightarrow>
             (resp\<lparr>Diagnostics := AddError (Diagnostics resp) ''Error creating user''
                      (''Could not create user, unexpected error: '' @ err)\<rparr>,
              log)
         | Inr result \<Rightarrow>
             (let log = log @ [(Info, ''User created'')];
                  (diags, st) = State_Set (State resp) plan;
                  resp = resp\<lparr>State := st\<rparr>;
                  log = log @ [(Info, ''Updated state object be like: ''
                                        @ Sprintf_v_State P (State resp))];
                  resp = resp\<lparr>Diagnostics := Append (Diagnostics resp) diags\<rparr>
              in (resp, log))))"

definition userResource_Read ::
  "printers \<Rightarrow> 'c api \<Rightarrow> 'c userResource \<Rightarrow> ReadRequest
     \<Rightarrow> userResourceModel StateResponse \<Rightarrow> userResourceModel StateResponse \<times> tflog" where
  "userResource_Read P A r req resp =
     (let (diags, state) = Get (req_State req);
          resp = resp\<lparr>Diagnostics := Append (Diagnostics resp) diags\<rparr>
      in
      if HasError (Diagnostics resp) then (resp, [])
      else
        (let log = [(Info, ''About to look for user '' @ ValueString (Login state))] in
         case Get_user_details A (client r)
                (''user/getDetails?login='' @ ValueString (Login state)) of
           Inl err \<Rightarrow>
             (resp\<lparr>Diagnostics := AddError (Diagnostics resp) ''Error Reading Uyuuni user''
                      (''Could not read User '' @ ValueString (Login state) @ '': '' @ err)\<rparr>,
              log)
         | Inr this_user \<Rightarrow>
             (let state = state\<lparr>FirstName := StringValue (First_name this_user)\<rparr>;
                  state = state\<lparr>LastName := StringValue (Last_name this_user)\<rparr>;
                  state = state\<lparr>Email := StringValue (details_Email this_user)\<rparr>;
                  log = log @ [(Info, ''Information returned from API: ''
                                        @ Sprintf_v_details P this_user)];
                  (diags, st) = State_Set (State resp) state;
                  resp = resp\<lparr>State := st\<rparr>;
                  resp = resp\<lparr>Diagnostics := Append (Diagnostics resp) diags\<rparr>
              in (resp, log))))"

definition userResource_Update ::
  "'c userResource \<Rightarrow> userResourceModel StateResponse \<Rightarrow> userResourceModel StateResponse" where
  "userResource_Update r resp = resp"

definition userResource_Delete ::
  "'c api \<Rightarrow> 'c userResource \<Rightarrow> DeleteRequest
     \<Rightarrow> userResourceModel StateResponse \<Rightarrow> userResourceModel StateResponse" where
  "userResource_Delete A r req resp =
     (let (diags, state) = Get (delete_State req);
          resp = resp\<lparr>Diagnostics := Append (Diagnostics resp) diags\<rparr>
      in
      if HasError (Diagnostics resp) then resp
      else
        (case Post_int A (client r) (''user/delete?login='' @ ValueString (Login state)) Map.empty of
           Inl err \<Rightarrow>
             resp\<lparr>Diagnostics := AddError (Diagnostics resp) ''Error Deleting Uyuni user''
                     (''Could not delete order, unexpected error: '' @ err)\<rparr>
         | Inr result \<Rightarrow> resp))"

definition userResource_Configure ::
  "'c userResource \<Rightarrow> 'c go_any \<Rightarrow> Response \<Rightarrow> 'c userResource \<times> Response" where
  "userResource_Configure r ProviderData resp =
     (case ProviderData of
        NilData \<Rightarrow> (r, resp)
      | HTTPClient_ptr c \<Rightarrow> (r\<lparr>client := c\<rparr>, resp)
      | OtherData T \<Rightarrow>
          (r, resp\<lparr>Diagnostics := AddError (Diagnostics resp)
                 ''Unexpected Data Source Configure Type''
                 (''Expected *uyuni.client, got: '' @ T @
                  ''. Please report this issue to the provider developers.'')\<rparr>))"

section \<open>The provider\<close>

record uyuniProviderModel =
  Host :: tfString
  Username :: tfString
  config_Password :: tfString

record ConfigureRequest =
  Config :: "uyuniProviderModel tfsdk_data"

record 'c ConfigureResponse = Response +
  DataSourceData :: "'c go_any"
  ResourceData :: "'c go_any"

text \<open>
  The process environment is a map from names to values; \<^verbatim>\<open>os.Getenv\<close> yields the
  empty string for a variable that is not set.
\<close>

definition Getenv :: "(string \<rightharpoonup> string) \<Rightarrow> string \<Rightarrow> string" where
  "Getenv env key = (case env key of None \<Rightarrow> [] | Some v \<Rightarrow> v)"

text \<open>
  The detail texts of the errors of \<^verbatim>\<open>Configure\<close>, as written in the source; the last
  one is followed by the message of the client library's error.
\<close>

definition Unknown_Host_detail :: string where
  "Unknown_Host_detail =
     ''The provider cannot create the Uyuni API client as there is an unknown configuration value for the Uyuni API host. '' @
     ''Either target apply the source of the value first, set the value statically in the configuration, or use the Uyuni_HOST environment variable.''"

definition Unknown_Username_detail :: string where
  "Unknown_Username_detail =
     ''The provider cannot create the Uyuni API client as there is an unknown configuration value for the Uyuni API username. '' @
     ''Either target apply the source of the value first, set the value statically in the configuration, or use the Uyuni_USERNAME environment variable.''"

definition Unknown_Password_detail :: string where
  "Unknown_Password_detail =
     ''The provider cannot create the Uyuni API client as there is an unknown configuration value for the Uyuni API password. '' @
     ''Either target apply the source of the value first, set the value statically in the configuration, or use the Uyuni_PASSWORD environment variable.''"

definition Missing_Host_detail :: string where
  "Missing_Host_detail =
     ''The provider cannot create the Uyuni API client as there is a missing or empty value for the Uyuni API host. '' @
     ''Set the host value in the configuration or use the Uyuni_HOST environment variable. '' @
     ''If either is already set, ensure the value is not empty.''"

definition Missing_Username_detail :: string where
  "Missing_Username_detail =
     ''The provider cannot create the Uyuni API client as there is a missing or empty value for the Uyuni API username. '' @
     ''Set the username value in the configuration or use the Uyuni_USERNAME environment variable. '' @
     ''If either is already set, ensure the value is not empty.''"

definition Missing_Password_detail :: string where
  "Missing_Password_detail =
     ''The provider cannot create the Uyuni API client as there is a missing or empty value for the Uyuni API password. '' @
     ''Set the password value in the configuration or use the Uyuni_PASSWORD environment variable. '' @
     ''If either is already set, ensure the value is not empty.''"

definition Client_Error_detail :: string where
  "Client_Error_detail =
     ''An unexpected error occurred when creating the Uyuni API client. '' @
     ''If the error is not clear, please contact the provider developers.'' @
     [CHR 0x0A, CHR 0x0A] @
     ''Uyuni Client Error: ''"

definition uyuniProvider_Configure ::
  "'c api \<Rightarrow> (string \<rightharpoonup> string) \<Rightarrow> ConfigureRequest
     \<Rightarrow> 'c ConfigureResponse \<Rightarrow> 'c ConfigureResponse \<times> tflog" where
  "uyuniProvider_Configure A env req resp =
     (let log = [(Info, ''Configuring Uyuni client'')];
          (diags, config) = Get (Config req);
          resp = resp\<lparr>Diagnostics := Append (Diagnostics resp) diags\<rparr>
      in
      if HasError (Diagnostics resp) then (resp, log)
      else
        (let resp =
               (if IsUnknown (Host config) then
                  resp\<lparr>Diagnostics := AddAttributeError (Diagnostics resp) ''host''
                    ''Unknown Uyuni API Host''
                    Unknown_Host_detail\<rparr>
                else resp);
             resp =
               (if IsUnknown (Username config) then
                  resp\<lparr>Diagnostics := AddAttributeError (Diagnostics resp) ''username''
                    ''Unknown Uyuni API Username''
                    Unknown_Username_detail\<rparr>
                else resp);
             resp =
               (if IsUnknown (config_Password config) then
                  resp\<lparr>Diagnostics := AddAttributeError (Diagnostics resp) ''password''
                    ''Unknown Uyuni API Password''
                    Unknown_Password_detail\<rparr>
                else resp)
         in
         if HasError (Diagnostics resp) then (resp, log)
         else
           (let host = Getenv env ''UYUNI_HOST'';
                username = Getenv env ''UYUNI_USERNAME'';
                password = Getenv env ''UYUNI_PASSWORD'';
                host = (if \<not> IsNull (Host config) then ValueString (Host config) else host);
                username =
                  (if \<not> IsNull (Username config) then ValueString (Username config)
                   else username);
                password =
                  (if \<not> IsNull (config_Password config) then ValueString (config_Password config)
                   else password);
                resp =
                  (if host = [] then
                     resp\<lparr>Diagnostics := AddAttributeError (Diagnostics resp) ''host''
                       ''Missing Uyuni API Host''
                       Missing_Host_detail\<rparr>
                   else resp);
                resp =
                  (if username = [] then
                     resp\<lparr>Diagnostics := AddAttributeError (Diagnostics resp) ''username''
                       ''Missing Uyuni API Username''
                       Missing_Username_detail\<rparr>
                   else resp);
                resp =
                  (if password = [] then
                     resp\<lparr>Diagnostics := AddAttributeError (Diagnostics resp) ''password''
                       ''Missing Uyuni API Password''
                       Missing_Password_detail\<rparr>
                   else resp)
            in
            if HasError (Diagnostics resp) then (resp, log)
            else
              (let log = log @ [(Debug, ''Creating HashiCups client'')];
                   conn = \<lparr>Server = host, User = username, conn_Password = password,
                           CAcert = [], Insecure = True\<rparr>
               in
               case Init A conn of
                 Inl err \<Rightarrow>
                   (resp\<lparr>Diagnostics := AddError (Diagnostics resp)
                      ''Unable to Create Uyuni API Client''
                      (Client_Error_detail @ err)\<rparr>,
                    log)
               | Inr c \<Rightarrow>
                   (let resp = resp\<lparr>DataSourceData := HTTPClient_ptr c\<rparr>;
                        resp = resp\<lparr>ResourceData := HTTPClient_ptr c\<rparr>;
                        log = log @ [(Info, ''Configured Uyuni client'')]
                    in (resp, log))))))"

section \<open>Example collaborators and inputs\<close>

text \<open>
  A remote API that accepts every request (and answers \<open>0\<close> to every post), one whose
  every call fails with the message \<open>boom\<close>, and one whose \<^verbatim>\<open>Init\<close> hands back the
  connection details it was given as the client, so that they can be read off the
  response. The plan is the one of the repository's example configuration.
\<close>

definition details_sgiertz :: user_details where
  "details_sgiertz =
     \<lparr>First_names = [], First_name = ''Simone'', Last_name = ''Giertz'',
      details_Email = ''sgiertz@foo.bar'', Org_id = 1, Org_name = ''org'', Prefix = ''Ms.'',
      Last_login_date = [], Created_date = [], details_Enabled = True, Use_pam = False,
      Read_only = False, Errata_notification = False\<rparr>"

definition stub_api :: "unit api" where
  "stub_api =
     \<lparr>Init = (\<lambda>conn. Inr (Some ())),
      Post_int = (\<lambda>c path data. Inr 0),
      Get_user_details = (\<lambda>c path. Inr details_sgiertz),
      Get_user_list = (\<lambda>c path.
        Inr [\<lparr>api_Id = 1, api_Login = ''admin'', Login_UC = ''ADMIN'', Enabled = True\<rparr>,
             \<lparr>api_Id = 2, api_Login = ''sgiertz'', Login_UC = ''SGIERTZ'', Enabled = True\<rparr>])\<rparr>"

definition failing_api :: "unit api" where
  "failing_api =
     \<lparr>Init = (\<lambda>conn. Inl ''boom''),
      Post_int = (\<lambda>c path data. Inl ''boom''),
      Get_user_details = (\<lambda>c path. Inl ''boom''),
      Get_user_list = (\<lambda>c path. Inl ''boom'')\<rparr>"

definition recording_api :: "ConnectionDetails api" where
  "recording_api =
     \<lparr>Init = (\<lambda>conn. Inr (Some conn)),
      Post_int = (\<lambda>c path data. Inr 0),
      Get_user_details = (\<lambda>c path. Inl ''unused''),
      Get_user_list = (\<lambda>c path. Inr [])\<rparr>"

definition plain_printers :: printers where
  "plain_printers =
     \<lparr>IsPrint_table = (\<lambda>r. True), Sprintf_v_State = (\<lambda>st. ''{state}''),
      Sprintf_v_details = (\<lambda>d. ''{details}'')\<rparr>"

definition plan_sgiertz :: userResourceModel where
  "plan_sgiertz =
     \<lparr>Login = StringValue ''sgiertz'', Password = StringValue ''test123'',
      FirstName = StringValue ''Simone'', LastName = StringValue ''Giertz'',
      Email = StringValue ''sgiertz@foo.bar''\<rparr>"

text \<open>A tracked state whose first name, last name and email are out of date.\<close>

definition stale_sgiertz :: userResourceModel where
  "stale_sgiertz =
     \<lparr>Login = StringValue ''sgiertz'', Password = StringValue ''test123'',
      FirstName = StringValue ''S'', LastName = StringValue ''G'',
      Email = StringValue ''old@foo.bar''\<rparr>"

definition configured :: "unit userResource" where
  "configured = \<lparr>client = Some ()\<rparr>"

definition absent :: "userResourceModel StateResponse" where
  "absent = \<lparr>Diagnostics = [], State = None\<rparr>"

definition fresh :: "ConnectionDetails ConfigureResponse" where
  "fresh = \<lparr>Diagnostics = [], DataSourceData = NilData, ResourceData = NilData\<rparr>"

section \<open>Reading a quoted string back\<close>

text \<open>
  What \<^verbatim>\<open>Quote\<close> writes can be read back: the functions below undo the escapes. They are
  not part of the provider; they serve to show that the rendering of a value in the
  log determines the value.
\<close>

definition unhex :: "char \<Rightarrow> nat" where
  "unhex c = (if (of_char c :: nat) < 0x3A then of_char c - 0x30 else of_char c - 0x57)"

definition hexval :: "string \<Rightarrow> nat" where
  "hexval cs = foldl (\<lambda>a c. a * 16 + unhex c) 0 cs"

definition unescape :: "char \<Rightarrow> char" where
  "unescape k =
     (if k = CHR ''a'' then CHR 0x07 else if k = CHR ''b'' then CHR 0x08
      else if k = CHR ''f'' then CHR 0x0C else if k = CHR ''n'' then CHR 0x0A
      else if k = CHR ''r'' then CHR 0x0D else if k = CHR ''t'' then CHR 0x09
      else if k = CHR ''v'' then CHR 0x0B else k)"

fun unquote_loop :: "string \<Rightarrow> string" where
  "unquote_loop [] = []"
| "unquote_loop (c # s) =
     (if c \<noteq> CHR 0x5C then c # unquote_loop s
      else
        (case s of
           [] \<Rightarrow> []
         | k # u \<Rightarrow>
             if k = CHR ''x'' then char_of (hexval (take 2 u)) # unquote_loop (drop 2 u)
             else if k = CHR ''u'' then AppendRune (hexval (take 4 u)) @ unquote_loop (drop 4 u)
             else if k = CHR ''U'' then AppendRune (hexval (take 8 u)) @ unquote_loop (drop 8 u)
             else unescape k # unquote_loop u))"

definition chunk_ok :: "string \<Rightarrow> nat \<Rightarrow> nat \<Rightarrow> bool" where
  "chunk_ok s r w \<longleftrightarrow>
     2 \<le> w \<and> w \<le> length s \<and> AppendRune r = take w s \<and> ValidRune r \<and> 0x80 \<le> r
     \<and> r \<le> 0x10FFFF \<and> (w = 4 \<longleftrightarrow> 0x10000 \<le> r)
     \<and> list_all (\<lambda>c. c \<noteq> CHR 0x5C) (take w s)"

definition plain :: "char \<Rightarrow> bool" where
  "plain c \<longleftrightarrow> 0x20 \<le> (of_char c :: nat) \<and> (of_char c :: nat) \<le> 0x7E
                \<and> c \<noteq> CHR 0x22 \<and> c \<noteq> CHR 0x5C"

definition read_String :: "string \<Rightarrow> tfString" where
  "read_String q =
     (if q = ''<unknown>'' then StringUnknown
      else if q = ''<null>'' then StringNull
      else StringValue (unquote_loop (butlast (tl q))))"

section \<open>Facts about diagnostics\<close>

lemma Contains_iff: "Contains ds d = (d \<in> set ds)"
  by (induction ds) auto

lemma HasError_iff: "HasError ds = (\<exists>d \<in> set ds. Severity d = SeverityError)"
  by (induction ds) auto

lemma HasError_append: "HasError (xs @ ys) = (HasError xs \<or> HasError ys)"
  by (induction xs) auto

lemma set_Append: "set (Append ds es) = set ds \<union> set es"
  by (induction es arbitrary: ds) (auto simp: Contains_iff)

lemma HasError_Append: "HasError (Append ds es) = (HasError ds \<or> HasError es)"
  by (auto simp: HasError_iff set_Append)

lemma Append_fresh_error:
  "\<not> HasError ds \<Longrightarrow> Severity d = SeverityError \<Longrightarrow> Append ds [d] = ds @ [d]"
  by (auto simp: Contains_iff HasError_iff)

lemma AddError_fresh:
  "\<not> HasError ds \<Longrightarrow> AddError ds summary detail = ds @ [ErrorDiagnostic summary detail]"
  by (simp add: AddError_def Append_fresh_error del: Append.simps)

lemma HasError_AddError: "HasError (AddError ds summary detail)"
  by (simp add: AddError_def HasError_Append del: Append.simps)

lemma error_notin: "\<not> HasError ds \<Longrightarrow> Severity d = SeverityError \<Longrightarrow> d \<notin> set ds"
  by (auto simp: HasError_iff)

lemma AddAttributeError_new:
  "AttributeErrorDiagnostic path summary detail \<notin> set ds \<Longrightarrow>
   AddAttributeError ds path summary detail = ds @ [AttributeErrorDiagnostic path summary detail]"
  by (simp add: AddAttributeError_def Contains_iff)

section \<open>Facts about quoting\<close>

lemma unhex_lowerhex: "n < 16 \<Longrightarrow> unhex (lowerhex n) = n"
proof -
  have "\<forall>n \<in> set [0..<16]. unhex (lowerhex n) = n"
    by code_simp
  then show "n < 16 \<Longrightarrow> unhex (lowerhex n) = n"
    by simp
qed

lemma hexval2:
  "hexval [lowerhex a, lowerhex b] = a * 16 + b" if "a < 16" "b < 16"
  using that by (simp add: hexval_def unhex_lowerhex)

lemma hex_step: "(r div (m * 16)) * 16 + (r div m) mod 16 = r div (m :: nat)"
  by (simp add: div_mult2_eq)

lemma hexval4:
  "hexval (map (\<lambda>s. lowerhex ((r div 2 ^ s) mod 16)) [12, 8, 4, 0]) = r" if "r < 0x10000"
proof -
  have d: "r div 4096 < 16"
    using that by simp
  then have top: "r div 4096 mod 16 = r div 4096"
    by simp
  have "((r div 4096 * 16 + r div 256 mod 16) * 16 + r div 16 mod 16) * 16 + r mod 16 = r"
    using hex_step [of r 256] hex_step [of r 16] hex_step [of r 1] by simp
  then show ?thesis
    by (simp add: hexval_def unhex_lowerhex top d)
qed

lemma hexval8:
  "hexval (map (\<lambda>s. lowerhex ((r div 2 ^ s) mod 16)) [28, 24, 20, 16, 12, 8, 4, 0]) = r"
  if "r < 0x100000000"
proof -
  have d: "r div 268435456 < 16"
    using that by simp
  then have top: "r div 268435456 mod 16 = r div 268435456"
    by simp
  have "((((((r div 268435456 * 16 + r div 16777216 mod 16) * 16
        + r div 1048576 mod 16) * 16 + r div 65536 mod 16) * 16
        + r div 4096 mod 16) * 16 + r div 256 mod 16) * 16 + r div 16 mod 16) * 16
        + r mod 16 = r"
    using hex_step [of r 16777216] hex_step [of r 1048576] hex_step [of r 65536]
          hex_step [of r 4096] hex_step [of r 256] hex_step [of r 16] hex_step [of r 1]
    by simp
  then show ?thesis
    by (simp add: hexval_def unhex_lowerhex top d)
qed

lemma split_digit:
  fixes hi lo n :: nat
  assumes "lo < n"
  shows "(hi * n + lo) div n = hi" and "(hi * n + lo) mod n = lo"
  using assms by simp_all

lemma mod_window:
  fixes x k m :: nat
  assumes "k * m \<le> x" "x < k * m + m"
  shows "x mod m = x - k * m"
proof -
  have "x = (x - k * m) + k * m"
    using assms(1) by simp
  then have "x mod m = (x - k * m + k * m) mod m"
    by simp
  also have "\<dots> = (x - k * m) mod m"
    by (rule mod_mult_self1)
  also have "\<dots> = x - k * m"
    using assms by (intro mod_less) linarith
  finally show ?thesis .
qed

lemma cont_byte:
  fixes b :: nat
  assumes "0x80 \<le> b" "b \<le> 0xBF"
  shows "b mod 64 = b - 128" and "b - 128 < 64" and "128 + (b - 128) = b"
  using assms mod_window [of 2 64 b] by simp_all

lemma enc2:
  fixes a b :: nat
  assumes "0xC2 \<le> a" "a < 0xE0" "0x80 \<le> b" "b \<le> 0xBF"
  defines "r \<equiv> (a mod 32) * 64 + b mod 64"
  shows "0x80 \<le> r" and "r \<le> 0x7FF"
    and "0xC0 + r div 64 = a" and "0x80 + r mod 64 = b"
proof -
  define A B where "A = a - 192" and "B = b - 128"
  have a: "a mod 32 = A" "2 \<le> A" "A < 32" "192 + A = a"
    using assms(1,2) mod_window [of 6 32 a] unfolding A_def by simp_all
  have b: "b mod 64 = B" "B < 64" "128 + B = b"
    using cont_byte [OF assms(3,4)] unfolding B_def by simp_all
  have r: "r = A * 64 + B"
    by (simp add: r_def a(1) b(1))
  show "0x80 \<le> r" using a(2) unfolding r by linarith
  show "r \<le> 0x7FF" using a(3) b(2) unfolding r by linarith
  show "0xC0 + r div 64 = a" using a(4) unfolding r by (simp only: split_digit(1) [OF b(2)])
  show "0x80 + r mod 64 = b" using b(3) unfolding r by (simp only: split_digit(2) [OF b(2)])
qed

lemma enc3:
  fixes a b c :: nat
  assumes "0xE0 \<le> a" "a < 0xF0" "0x80 \<le> b" "b \<le> 0xBF" "0x80 \<le> c" "c \<le> 0xBF"
      and "a = 0xE0 \<Longrightarrow> 0xA0 \<le> b" and "a = 0xED \<Longrightarrow> b \<le> 0x9F"
  defines "r \<equiv> (a mod 16) * 4096 + (b mod 64) * 64 + c mod 64"
  shows "0x800 \<le> r" and "r \<le> 0xFFFF"
    and "\<not> (0xD800 \<le> r \<and> r \<le> 0xDFFF)"
    and "0xE0 + r div 4096 = a"
    and "0x80 + (r div 64) mod 64 = b"
    and "0x80 + r mod 64 = c"
proof -
  define A B C where "A = a - 224" and "B = b - 128" and "C = c - 128"
  have a: "a mod 16 = A" "A < 16" "224 + A = a"
    using assms(1,2) mod_window [of 14 16 a] unfolding A_def by simp_all
  have b: "b mod 64 = B" "B < 64" "128 + B = b"
    using cont_byte [OF assms(3,4)] unfolding B_def by simp_all
  have c: "c mod 64 = C" "C < 64" "128 + C = c"
    using cont_byte [OF assms(5,6)] unfolding C_def by simp_all
  have flat: "r = A * 4096 + B * 64 + C"
    by (simp add: r_def a(1) b(1) c(1))
  have r: "r = (A * 64 + B) * 64 + C"
    unfolding flat by (simp add: algebra_simps)
  have d64: "r div 64 = A * 64 + B"
    unfolding r by (rule split_digit(1) [OF c(2)])
  have m64: "r mod 64 = C"
    unfolding r by (rule split_digit(2) [OF c(2)])
  have "r div 4096 = r div 64 div 64"
    by (simp add: div_mult2_eq)
  then have d4096: "r div 4096 = A"
    unfolding d64 by (simp only: split_digit(1) [OF b(2)])
  have m4096: "r div 64 mod 64 = B"
    unfolding d64 by (rule split_digit(2) [OF b(2)])
  have lo: "A = 0 \<Longrightarrow> 32 \<le> B"
    using assms(7) a(3) b(3) by linarith
  have hi: "A = 13 \<Longrightarrow> B < 32"
    using assms(8) a(3) b(3) by linarith
  show "0x800 \<le> r" using lo unfolding flat by (cases "A = 0") simp_all
  show "r \<le> 0xFFFF" using a(2) b(2) c(2) unfolding flat by linarith
  show "\<not> (0xD800 \<le> r \<and> r \<le> 0xDFFF)"
  proof (cases "A = 13")
    case True
    then show ?thesis using hi c(2) unfolding flat by simp
  next
    case False
    then consider "A \<le> 12" | "14 \<le> A" by linarith
    then show ?thesis
    proof cases
      case 1
      then show ?thesis using b(2) c(2) unfolding flat by linarith
    next
      case 2
      then show ?thesis unfolding flat by linarith
    qed
  qed
  show "0xE0 + r div 4096 = a" using a(3) by (simp add: d4096)
  show "0x80 + (r div 64) mod 64 = b" using b(3) by (simp add: m4096)
  show "0x80 + r mod 64 = c" using c(3) by (simp add: m64)
qed

lemma enc4:
  fixes a b c d :: nat
  assumes "0xF0 \<le> a" "a \<le> 0xF4" "0x80 \<le> b" "b \<le> 0xBF" "0x80 \<le> c" "c \<le> 0xBF"
      and "0x80 \<le> d" "d \<le> 0xBF"
      and "a = 0xF0 \<Longrightarrow> 0x90 \<le> b" and "a = 0xF4 \<Longrightarrow> b \<le> 0x8F"
  defines "r \<equiv> (a mod 8) * 262144 + (b mod 64) * 4096 + (c mod 64) * 64 + d mod 64"
  shows "0x10000 \<le> r" and "r \<le> 0x10FFFF"
    and "0xF0 + r div 262144 = a"
    and "0x80 + (r div 4096) mod 64 = b"
    and "0x80 + (r div 64) mod 64 = c"
    and "0x80 + r mod 64 = d"
proof -
  define A B C D where "A = a - 240" and "B = b - 128" and "C = c - 128" and "D = d - 128"
  have a: "a mod 8 = A" "A \<le> 4" "240 + A = a"
    using assms(1,2) mod_window [of 30 8 a] unfolding A_def by simp_all
  have b: "b mod 64 = B" "B < 64" "128 + B = b"
    using cont_byte [OF assms(3,4)] unfolding B_def by simp_all
  have c: "c mod 64 = C" "C < 64" "128 + C = c"
    using cont_byte [OF assms(5,6)] unfolding C_def by simp_all
  have d: "d mod 64 = D" "D < 64" "128 + D = d"
    using cont_byte [OF assms(7,8)] unfolding D_def by simp_all
  have flat: "r = A * 262144 + B * 4096 + C * 64 + D"
    by (simp add: r_def a(1) b(1) c(1) d(1))
  have r: "r = ((A * 64 + B) * 64 + C) * 64 + D"
    unfolding flat by (simp add: algebra_simps)
  have d64: "r div 64 = (A * 64 + B) * 64 + C"
    unfolding r by (rule split_digit(1) [OF d(2)])
  have m64: "r mod 64 = D"
    unfolding r by (rule split_digit(2) [OF d(2)])
  have "r div 4096 = r div 64 div 64"
    by (simp add: div_mult2_eq)
  then have d4096: "r div 4096 = A * 64 + B"
    unfolding d64 by (simp only: split_digit(1) [OF c(2)])
  have m4096: "r div 64 mod 64 = C"
    unfolding d64 by (rule split_digit(2) [OF c(2)])
  have "r div 262144 = r div 4096 div 64"
    by (simp add: div_mult2_eq)
  then have d262144: "r div 262144 = A"
    unfolding d4096 by (simp only: split_digit(1) [OF b(2)])
  have m262144: "r div 4096 mod 64 = B"
    unfolding d4096 by (rule split_digit(2) [OF b(2)])
  have lo: "A = 0 \<Longrightarrow> 16 \<le> B"
    using assms(9) a(3) b(3) by linarith
  have hi: "A = 4 \<Longrightarrow> B < 16"
    using assms(10) a(3) b(3) by linarith
  show "0x10000 \<le> r" using lo unfolding flat by (cases "A = 0") simp_all
  show "r \<le> 0x10FFFF"
  proof (cases "A = 4")
    case True
    then show ?thesis using hi c(2) d(2) unfolding flat by simp
  next
    case False
    then have "A \<le> 3" using a(2) by linarith
    then show ?thesis using b(2) c(2) d(2) unfolding flat by linarith
  qed
  show "0xF0 + r div 262144 = a" using a(3) by (simp add: d262144)
  show "0x80 + (r div 4096) mod 64 = b" using b(3) by (simp add: m262144)
  show "0x80 + (r div 64) mod 64 = c" using c(3) by (simp add: m4096)
  show "0x80 + r mod 64 = d" using d(3) by (simp add: m64)
qed

lemma AppendRune2: "0x80 \<le> r \<Longrightarrow> r \<le> 0x7FF \<Longrightarrow>
    AppendRune r = [char_of (0xC0 + r div 64), char_of (0x80 + r mod 64)]"
  by (simp add: AppendRune_def)

lemma AppendRune3: "0x800 \<le> r \<Longrightarrow> r \<le> 0xFFFF \<Longrightarrow> \<not> (0xD800 \<le> r \<and> r \<le> 0xDFFF) \<Longrightarrow>
    AppendRune r = [char_of (0xE0 + r div 4096), char_of (0x80 + (r div 64) mod 64),
                    char_of (0x80 + r mod 64)]"
  by (auto simp add: AppendRune_def MaxRune_def)

lemma AppendRune4: "0x10000 \<le> r \<Longrightarrow> r \<le> 0x10FFFF \<Longrightarrow>
    AppendRune r = [char_of (0xF0 + r div 262144), char_of (0x80 + (r div 4096) mod 64),
                    char_of (0x80 + (r div 64) mod 64), char_of (0x80 + r mod 64)]"
  by (simp add: AppendRune_def MaxRune_def)

lemma high_not_backslash: "0x80 \<le> (of_char c :: nat) \<Longrightarrow> c \<noteq> CHR 0x5C"
  by auto

lemma Decode_two:
  assumes s0: "0xC2 \<le> (of_char c0 :: nat)" "(of_char c0 :: nat) < 0xE0"
      and d: "DecodeRuneInString (c0 # t) = (r, w)" and ne: "\<not> (w = 1 \<and> r = RuneError)"
  shows "chunk_ok (c0 # t) r w"
proof (cases t)
  case Nil
  with s0 d ne show ?thesis
    by (simp add: DecodeRuneInString_def Let_def)
next
  case (Cons c1 t')
  show ?thesis
  proof (cases "(of_char c1 :: nat) < 0x80 \<or> 0xBF < (of_char c1 :: nat)")
    case True
    with s0 d ne Cons show ?thesis
      by (simp add: DecodeRuneInString_def Let_def)
  next
    case False
    then have s1: "0x80 \<le> (of_char c1 :: nat)" "(of_char c1 :: nat) \<le> 0xBF"
      by simp_all
    have r: "r = (of_char c0 mod 32) * 64 + of_char c1 mod 64" and w: "w = 2"
      using s0 s1 d Cons by (simp_all add: DecodeRuneInString_def Let_def)
    note e = enc2 [OF s0 s1, folded r]
    have "AppendRune r = [c0, c1]"
      by (simp add: AppendRune2 [OF e(1,2)] e(3,4))
    moreover have "ValidRune r"
      using e(2) by (simp add: ValidRune_def)
    ultimately show ?thesis
      using e(1,2) s0 s1 by (simp add: chunk_ok_def w Cons high_not_backslash)
  qed
qed

lemma Decode_three:
  assumes s0: "0xE0 \<le> (of_char c0 :: nat)" "(of_char c0 :: nat) < 0xF0"
      and d: "DecodeRuneInString (c0 # t) = (r, w)" and ne: "\<not> (w = 1 \<and> r = RuneError)"
  shows "chunk_ok (c0 # t) r w"
proof -
  define lo :: nat where "lo = (if (of_char c0 :: nat) = 0xE0 then 0xA0 else 0x80)"
  define hi :: nat where "hi = (if (of_char c0 :: nat) = 0xED then 0x9F else 0xBF)"
  have dec: "DecodeRuneInString (c0 # t) =
      (if length t < 2 then (RuneError, 1)
       else if of_char (t ! 0) < lo \<or> hi < of_char (t ! 0) then (RuneError, 1)
       else if (of_char (t ! 1) :: nat) < 0x80 \<or> 0xBF < (of_char (t ! 1) :: nat)
         then (RuneError, 1)
       else ((of_char c0 mod 16) * 4096 + (of_char (t ! 0) mod 64) * 64
               + of_char (t ! 1) mod 64, 3))"
    using s0 by (auto simp add: DecodeRuneInString_def Let_def lo_def hi_def)
  from d ne have len: "\<not> length t < 2"
    and b1: "\<not> (of_char (t ! 0) < lo \<or> hi < of_char (t ! 0))"
    and b2: "\<not> ((of_char (t ! 1) :: nat) < 0x80 \<or> 0xBF < (of_char (t ! 1) :: nat))"
    unfolding dec by (auto split: if_splits)
  from len obtain c1 c2 t' where t: "t = c1 # c2 # t'"
    by (cases t; cases "tl t") auto
  have s1: "0x80 \<le> (of_char c1 :: nat)" "(of_char c1 :: nat) \<le> 0xBF"
    and s1lo: "(of_char c0 :: nat) = 0xE0 \<Longrightarrow> 0xA0 \<le> (of_char c1 :: nat)"
    and s1hi: "(of_char c0 :: nat) = 0xED \<Longrightarrow> (of_char c1 :: nat) \<le> 0x9F"
    using b1 unfolding t lo_def hi_def by (auto split: if_splits)
  have s2: "0x80 \<le> (of_char c2 :: nat)" "(of_char c2 :: nat) \<le> 0xBF"
    using b2 unfolding t by auto
  have r: "r = (of_char c0 mod 16) * 4096 + (of_char c1 mod 64) * 64 + of_char c2 mod 64"
    and w: "w = 3"
    using d len b1 b2 unfolding dec by (simp_all add: t)
  note e = enc3 [OF s0 s1 s2 s1lo s1hi, folded r]
  have "AppendRune r = [c0, c1, c2]"
    by (simp add: AppendRune3 [OF e(1,2,3)] e(4,5,6))
  moreover have "ValidRune r"
    using e(2,3) by (auto simp add: ValidRune_def MaxRune_def)
  ultimately show ?thesis
    using e(1,2) s0 s1 s2 by (simp add: chunk_ok_def w t high_not_backslash)
qed

lemma Decode_four:
  assumes s0: "0xF0 \<le> (of_char c0 :: nat)" "(of_char c0 :: nat) \<le> 0xF4"
      and d: "DecodeRuneInString (c0 # t) = (r, w)" and ne: "\<not> (w = 1 \<and> r = RuneError)"
  shows "chunk_ok (c0 # t) r w"
proof -
  define lo :: nat where "lo = (if (of_char c0 :: nat) = 0xF0 then 0x90 else 0x80)"
  define hi :: nat where "hi = (if (of_char c0 :: nat) = 0xF4 then 0x8F else 0xBF)"
  have dec: "DecodeRuneInString (c0 # t) =
      (if length t < 3 then (RuneError, 1)
       else if of_char (t ! 0) < lo \<or> hi < of_char (t ! 0) then (RuneError, 1)
       else if (of_char (t ! 1) :: nat) < 0x80 \<or> 0xBF < (of_char (t ! 1) :: nat)
         then (RuneError, 1)
       else if (of_char (t ! 2) :: nat) < 0x80 \<or> 0xBF < (of_char (t ! 2) :: nat)
         then (RuneError, 1)
       else ((of_char c0 mod 8) * 262144 + (of_char (t ! 0) mod 64) * 4096
               + (of_char (t ! 1) mod 64) * 64 + of_char (t ! 2) mod 64, 4))"
    using s0 by (auto simp add: DecodeRuneInString_def Let_def lo_def hi_def)
  from d ne have len: "\<not> length t < 3"
    and b1: "\<not> (of_char (t ! 0) < lo \<or> hi < of_char (t ! 0))"
    and b2: "\<not> ((of_char (t ! 1) :: nat) < 0x80 \<or> 0xBF < (of_char (t ! 1) :: nat))"
    and b3: "\<not> ((of_char (t ! 2) :: nat) < 0x80 \<or> 0xBF < (of_char (t ! 2) :: nat))"
    unfolding dec by (auto split: if_splits)
  from len obtain c1 c2 c3 t' where t: "t = c1 # c2 # c3 # t'"
    by (cases t; cases "tl t"; cases "tl (tl t)") auto
  have s1: "0x80 \<le> (of_char c1 :: nat)" "(of_char c1 :: nat) \<le> 0xBF"
    and s1lo: "(of_char c0 :: nat) = 0xF0 \<Longrightarrow> 0x90 \<le> (of_char c1 :: nat)"
    and s1hi: "(of_char c0 :: nat) = 0xF4 \<Longrightarrow> (of_char c1 :: nat) \<le> 0x8F"
    using b1 unfolding t lo_def hi_def by (auto split: if_splits)
  have s2: "0x80 \<le> (of_char c2 :: nat)" "(of_char c2 :: nat) \<le> 0xBF"
    using b2 unfolding t by auto
  have s3: "0x80 \<le> (of_char c3 :: nat)" "(of_char c3 :: nat) \<le> 0xBF"
    using b3 unfolding t by auto
  have r: "r = (of_char c0 mod 8) * 262144 + (of_char c1 mod 64) * 4096
               + (of_char c2 mod 64) * 64 + of_char c3 mod 64"
    and w: "w = 4"
    using d len b1 b2 b3 unfolding dec by (simp_all add: t)
  note e = enc4 [OF s0 s1 s2 s3 s1lo s1hi, folded r]
  have "AppendRune r = [c0, c1, c2, c3]"
    by (simp add: AppendRune4 [OF e(1,2)] e(3,4,5,6))
  moreover have "ValidRune r"
    using e(1,2) by (auto simp add: ValidRune_def MaxRune_def)
  ultimately show ?thesis
    using e(1,2) s0 s1 s2 s3 by (simp add: chunk_ok_def w t high_not_backslash)
qed

lemma Decode_invalid_first:
  assumes "(of_char c0 :: nat) \<ge> 0x80" "(of_char c0 :: nat) < 0xC2 \<or> 0xF4 < (of_char c0 :: nat)"
  shows "DecodeRuneInString (c0 # t) = (RuneError, 1)"
  using assms by (auto simp add: DecodeRuneInString_def Let_def)

lemma Decode_multibyte:
  assumes "(of_char c0 :: nat) \<ge> 0x80"
      and d: "DecodeRuneInString (c0 # t) = (r, w)" and ne: "\<not> (w = 1 \<and> r = RuneError)"
  shows "chunk_ok (c0 # t) r w"
proof -
  consider "(of_char c0 :: nat) < 0xC2 \<or> 0xF4 < (of_char c0 :: nat)"
    | "0xC2 \<le> (of_char c0 :: nat)" "(of_char c0 :: nat) < 0xE0"
    | "0xE0 \<le> (of_char c0 :: nat)" "(of_char c0 :: nat) < 0xF0"
    | "0xF0 \<le> (of_char c0 :: nat)" "(of_char c0 :: nat) \<le> 0xF4"
    by linarith
  then show ?thesis
  proof cases
    case 1
    then show ?thesis using Decode_invalid_first [OF assms(1) 1, of t] d ne by simp
  next
    case 2
    then show ?thesis using Decode_two d ne by blast
  next
    case 3
    then show ?thesis using Decode_three d ne by blast
  next
    case 4
    then show ?thesis using Decode_four d ne by blast
  qed
qed

lemma unquote_literal:
  "list_all (\<lambda>c. c \<noteq> CHR 0x5C) xs \<Longrightarrow> unquote_loop (xs @ t) = xs @ unquote_loop t"
  by (induction xs) simp_all

lemma byte_digits:
  "(of_char c :: nat) div 16 < 16" "(of_char c :: nat) mod 16 < 16"
  "(of_char c :: nat) div 16 * 16 + of_char c mod 16 = of_char c"
proof -
  have "(of_char c :: nat) < 16 * 16"
    using nat_of_char_less_256 [of c] by simp
  then show "(of_char c :: nat) div 16 < 16"
    by (rule less_mult_imp_div_less)
qed simp_all

lemma unquote_x:
  "unquote_loop ([CHR 0x5C, CHR ''x'', lowerhex ((of_char c :: nat) div 16),
                  lowerhex ((of_char c :: nat) mod 16)] @ t) = c # unquote_loop t"
proof -
  have "hexval [lowerhex ((of_char c :: nat) div 16), lowerhex ((of_char c :: nat) mod 16)]
               = of_char c"
    by (simp add: hexval2 byte_digits)
  then show ?thesis
    by simp
qed

lemma special_bytes:
  "(of_char c :: nat) = 0x22 \<longleftrightarrow> c = CHR 0x22"
  "(of_char c :: nat) = 0x5C \<longleftrightarrow> c = CHR 0x5C"
  "(of_char c :: nat) = 7 \<longleftrightarrow> c = CHR 0x07"
  "(of_char c :: nat) = 8 \<longleftrightarrow> c = CHR 0x08"
  "(of_char c :: nat) = 12 \<longleftrightarrow> c = CHR 0x0C"
  "(of_char c :: nat) = 10 \<longleftrightarrow> c = CHR 0x0A"
  "(of_char c :: nat) = 13 \<longleftrightarrow> c = CHR 0x0D"
  "(of_char c :: nat) = 9 \<longleftrightarrow> c = CHR 0x09"
  "(of_char c :: nat) = 11 \<longleftrightarrow> c = CHR 0x0B"
  using of_char_eq_iff [of c "CHR 0x22", where ?'a = nat]
        of_char_eq_iff [of c "CHR 0x5C", where ?'a = nat]
        of_char_eq_iff [of c "CHR 0x07", where ?'a = nat]
        of_char_eq_iff [of c "CHR 0x08", where ?'a = nat]
        of_char_eq_iff [of c "CHR 0x0C", where ?'a = nat]
        of_char_eq_iff [of c "CHR 0x0A", where ?'a = nat]
        of_char_eq_iff [of c "CHR 0x0D", where ?'a = nat]
        of_char_eq_iff [of c "CHR 0x09", where ?'a = nat]
        of_char_eq_iff [of c "CHR 0x0B", where ?'a = nat]
  by simp_all

lemma unquote_backslashed:
  assumes "k \<noteq> CHR ''x''" "k \<noteq> CHR ''u''" "k \<noteq> CHR ''U''"
  shows "unquote_loop ([CHR 0x5C, k] @ t) = unescape k # unquote_loop t"
  using assms by simp

lemma control_escapes:
  "appendEscapedRune T 7 = [CHR 0x5C, CHR ''a'']"
  "appendEscapedRune T 8 = [CHR 0x5C, CHR ''b'']"
  "appendEscapedRune T 12 = [CHR 0x5C, CHR ''f'']"
  "appendEscapedRune T 10 = [CHR 0x5C, CHR ''n'']"
  "appendEscapedRune T 13 = [CHR 0x5C, CHR ''r'']"
  "appendEscapedRune T 9 = [CHR 0x5C, CHR ''t'']"
  "appendEscapedRune T 11 = [CHR 0x5C, CHR ''v'']"
  by (simp_all add: appendEscapedRune_def IsPrint_def)

lemma unescape_values:
  "unescape (CHR ''a'') = CHR 0x07" "unescape (CHR ''b'') = CHR 0x08"
  "unescape (CHR ''f'') = CHR 0x0C" "unescape (CHR ''n'') = CHR 0x0A"
  "unescape (CHR ''r'') = CHR 0x0D" "unescape (CHR ''t'') = CHR 0x09"
  "unescape (CHR ''v'') = CHR 0x0B" "unescape (CHR 0x22) = CHR 0x22"
  "unescape (CHR 0x5C) = CHR 0x5C"
  by (simp_all add: unescape_def)

lemma unquote_escaped_control:
  assumes "(of_char c :: nat) \<in> {7, 8, 12, 10, 13, 9, 11}"
  shows "unquote_loop (appendEscapedRune T (of_char c) @ t) = c # unquote_loop t"
proof -
  consider "(of_char c :: nat) = 7" | "(of_char c :: nat) = 8" | "(of_char c :: nat) = 12"
    | "(of_char c :: nat) = 10" | "(of_char c :: nat) = 13" | "(of_char c :: nat) = 9"
    | "(of_char c :: nat) = 11"
    using assms by blast
  then show ?thesis
  proof cases
    case 1
    then show ?thesis
      using special_bytes(3) [of c]
      by (simp only: 1 control_escapes) (simp add: unquote_backslashed unescape_values)
  next
    case 2
    then show ?thesis
      using special_bytes(4) [of c]
      by (simp only: 2 control_escapes) (simp add: unquote_backslashed unescape_values)
  next
    case 3
    then show ?thesis
      using special_bytes(5) [of c]
      by (simp only: 3 control_escapes) (simp add: unquote_backslashed unescape_values)
  next
    case 4
    then show ?thesis
      using special_bytes(6) [of c]
      by (simp only: 4 control_escapes) (simp add: unquote_backslashed unescape_values)
  next
    case 5
    then show ?thesis
      using special_bytes(7) [of c]
      by (simp only: 5 control_escapes) (simp add: unquote_backslashed unescape_values)
  next
    case 6
    then show ?thesis
      using special_bytes(8) [of c]
      by (simp only: 6 control_escapes) (simp add: unquote_backslashed unescape_values)
  next
    case 7
    then show ?thesis
      using special_bytes(9) [of c]
      by (simp only: 7 control_escapes) (simp add: unquote_backslashed unescape_values)
  qed
qed

lemma unquote_escaped_quote:
  assumes "(of_char c :: nat) = 0x22 \<or> (of_char c :: nat) = 0x5C"
  shows "unquote_loop (appendEscapedRune T (of_char c) @ t) = c # unquote_loop t"
proof -
  have "appendEscapedRune T (of_char c) = [CHR 0x5C, c]"
    using assms by (auto simp add: appendEscapedRune_def)
  moreover have "c = CHR 0x22 \<or> c = CHR 0x5C"
    using assms by (simp add: special_bytes)
  ultimately show ?thesis
    by (auto simp add: unescape_values)
qed

lemma appendEscapedRune_printable_ascii:
  assumes "0x20 \<le> r" "r \<le> 0x7E" "r \<noteq> 0x22" "r \<noteq> 0x5C"
  shows "appendEscapedRune T r = [char_of r]"
proof -
  have "IsPrint T r" using assms(1,2) by (simp add: IsPrint_def)
  moreover have "AppendRune r = [char_of r]" using assms(2) by (simp add: AppendRune_def)
  ultimately show ?thesis using assms(3,4) by (simp add: appendEscapedRune_def)
qed

lemma appendEscapedRune_hex_ascii:
  assumes "r < 0x20 \<or> r = 0x7F" "r \<notin> {7, 8, 12, 10, 13, 9, 11}"
  shows "appendEscapedRune T r =
           [CHR 0x5C, CHR ''x'', lowerhex ((r mod 256) div 16), lowerhex (r mod 16)]"
proof -
  have "\<not> IsPrint T r" using assms(1) by (auto simp add: IsPrint_def)
  moreover have "r \<noteq> 0x22" "r \<noteq> 0x5C" using assms(1) by auto
  moreover have "r \<noteq> 7" "r \<noteq> 8" "r \<noteq> 12" "r \<noteq> 10" "r \<noteq> 13" "r \<noteq> 9" "r \<noteq> 11"
    using assms(2) by simp_all
  ultimately show ?thesis using assms(1) by (simp add: appendEscapedRune_def)
qed

lemma unquote_escaped_ascii:
  assumes "(of_char c :: nat) < 0x80"
  shows "unquote_loop (appendEscapedRune T (of_char c) @ t) = c # unquote_loop t"
proof (cases "(of_char c :: nat) = 0x22 \<or> (of_char c :: nat) = 0x5C")
  case True
  then show ?thesis by (rule unquote_escaped_quote)
next
  case nq: False
  show ?thesis
  proof (cases "(of_char c :: nat) \<in> {7, 8, 12, 10, 13, 9, 11}")
    case True
    then show ?thesis by (rule unquote_escaped_control)
  next
    case nc: False
    show ?thesis
    proof (cases "0x20 \<le> (of_char c :: nat) \<and> (of_char c :: nat) \<le> 0x7E")
      case True
      then have "appendEscapedRune T (of_char c) = [c]"
        using nq appendEscapedRune_printable_ascii [of "of_char c" T] by simp
      moreover have "c \<noteq> CHR 0x5C"
        using nq by (simp add: special_bytes)
      ultimately show ?thesis
        by simp
    next
      case False
      then have "(of_char c :: nat) < 0x20 \<or> (of_char c :: nat) = 0x7F"
        using assms by linarith
      then have "appendEscapedRune T (of_char c) =
          [CHR 0x5C, CHR ''x'', lowerhex ((of_char c :: nat) div 16),
           lowerhex ((of_char c :: nat) mod 16)]"
        using appendEscapedRune_hex_ascii [OF _ nc, of T] by simp
      then show ?thesis
        using unquote_x [of c t] by simp
    qed
  qed
qed

lemma unquote_escaped_chunk:
  assumes "chunk_ok s r w"
  shows "unquote_loop (appendEscapedRune T r @ t) = take w s @ unquote_loop t"
proof -
  from assms have enc: "AppendRune r = take w s" and lit: "list_all (\<lambda>c. c \<noteq> CHR 0x5C) (take w s)"
    and v: "ValidRune r" and lo: "0x80 \<le> r" and hi: "r \<le> 0x10FFFF"
    by (simp_all add: chunk_ok_def)
  show ?thesis
  proof (cases "IsPrint T r")
    case True
    then have "appendEscapedRune T r = take w s"
      using lo enc by (simp add: appendEscapedRune_def)
    then show ?thesis
      by (simp add: unquote_literal [OF lit])
  next
    case False
    show ?thesis
    proof (cases "r < 0x10000")
      case True
      then have "appendEscapedRune T r =
          CHR 0x5C # CHR ''u'' # map (\<lambda>s. lowerhex ((r div 2 ^ s) mod 16)) [12, 8, 4, 0]"
        using lo v \<open>\<not> IsPrint T r\<close> by (simp add: appendEscapedRune_def)
      moreover have "hexval (map (\<lambda>s. lowerhex ((r div 2 ^ s) mod 16)) [12, 8, 4, 0]) = r"
        using True by (rule hexval4)
      ultimately show ?thesis
        using enc by simp
    next
      case False
      then have "appendEscapedRune T r =
          CHR 0x5C # CHR ''U'' #
            map (\<lambda>s. lowerhex ((r div 2 ^ s) mod 16)) [28, 24, 20, 16, 12, 8, 4, 0]"
        using lo v \<open>\<not> IsPrint T r\<close> by (simp add: appendEscapedRune_def)
      moreover have "hexval (map (\<lambda>s. lowerhex ((r div 2 ^ s) mod 16))
                        [28, 24, 20, 16, 12, 8, 4, 0]) = r"
        using hi by (intro hexval8) simp
      ultimately show ?thesis
        using enc by simp
    qed
  qed
qed

lemma quote_loop_Nil: "quote_loop T [] = []"
  by (subst quote_loop.simps) simp

lemma quote_loop_ascii:
  assumes "(of_char c :: nat) < 0x80"
  shows "quote_loop T (c # s) = appendEscapedRune T (of_char c) @ quote_loop T s"
  using assms by (subst quote_loop.simps) (simp add: RuneSelf_def RuneError_def)

lemma quote_loop_high:
  assumes "0x80 \<le> (of_char c :: nat)" and "DecodeRuneInString (c # s) = (r, w)"
  shows "quote_loop T (c # s) =
           (if w = 1 \<and> r = RuneError then
              [CHR 0x5C, CHR ''x'', lowerhex ((of_char c :: nat) div 16),
               lowerhex ((of_char c :: nat) mod 16)]
            else appendEscapedRune T r) @ quote_loop T (drop w (c # s))"
  using assms by (subst quote_loop.simps) (simp add: RuneSelf_def)

lemma unquote_quote_loop: "unquote_loop (quote_loop T s @ t) = s @ unquote_loop t"
proof (induction s rule: length_induct)
  case (1 s)
  show ?case
  proof (cases s)
    case Nil
    then show ?thesis by (simp add: quote_loop_Nil)
  next
    case (Cons c s')
    show ?thesis
    proof (cases "(of_char c :: nat) < 0x80")
      case True
      have "unquote_loop (quote_loop T s' @ t) = s' @ unquote_loop t"
        using 1 Cons by simp
      then show ?thesis
        by (simp add: Cons quote_loop_ascii [OF True] unquote_escaped_ascii [OF True])
    next
      case False
      then have high: "0x80 \<le> (of_char c :: nat)" by simp
      obtain r w where d: "DecodeRuneInString (c # s') = (r, w)"
        by (cases "DecodeRuneInString (c # s')")
      show ?thesis
      proof (cases "w = 1 \<and> r = RuneError")
        case True
        have "unquote_loop (quote_loop T s' @ t) = s' @ unquote_loop t"
          using 1 Cons by simp
        then show ?thesis
          using True unquote_x [of c "quote_loop T s' @ t"]
          by (simp add: Cons quote_loop_high [OF high d])
      next
        case False
        then have ok: "chunk_ok (c # s') r w"
          using Decode_multibyte [OF high d] by simp
        then have w: "2 \<le> w" "w \<le> length (c # s')"
          by (simp_all add: chunk_ok_def)
        then have "length (drop w (c # s')) < length s"
          by (simp add: Cons)
        then have "unquote_loop (quote_loop T (drop w (c # s')) @ t)
                     = drop w (c # s') @ unquote_loop t"
          using 1 by blast
        then show ?thesis
          using False unquote_escaped_chunk [OF ok, of T "quote_loop T (drop w (c # s')) @ t"]
          by (simp only: Cons quote_loop_high [OF high d] if_False append_assoc)
             (simp only: append_assoc [symmetric] append_take_drop_id)
      qed
    qed
  qed
qed

lemma quote_loop_inj: "quote_loop T s = quote_loop T s' \<Longrightarrow> s = s'"
  using unquote_quote_loop [of T s "[]"] unquote_quote_loop [of T s' "[]"] by simp

lemma Quote_inj: "Quote T s = Quote T s' \<Longrightarrow> s = s'"
  by (simp add: Quote_def quote_loop_inj)

lemma quote_loop_plain: "list_all plain s \<Longrightarrow> quote_loop T s = s"
proof (induction s)
  case Nil
  then show ?case by (simp add: quote_loop_Nil)
next
  case (Cons c s)
  then have c: "0x20 \<le> (of_char c :: nat)" "(of_char c :: nat) \<le> 0x7E"
    "(of_char c :: nat) \<noteq> 0x22" "(of_char c :: nat) \<noteq> 0x5C"
    by (simp_all add: plain_def special_bytes)
  then have "(of_char c :: nat) < 0x80" by simp
  moreover have "appendEscapedRune T (of_char c) = [c]"
    using appendEscapedRune_printable_ascii [OF c, of T] by simp
  ultimately show ?case
    using Cons by (simp add: quote_loop_ascii)
qed

lemma tfString_String_plain:
  "list_all plain s \<Longrightarrow> tfString_String T (StringValue s) = [CHR 0x22] @ s @ [CHR 0x22]"
  by (simp add: Quote_def quote_loop_plain)

lemma read_String_tfString_String: "read_String (tfString_String T v) = v"
proof (cases v)
  case (StringValue s)
  have "unquote_loop (quote_loop T s) = s"
    using unquote_quote_loop [of T s "[]"] by simp
  then show ?thesis
    by (simp add: StringValue read_String_def Quote_def)
qed (simp_all add: read_String_def)

lemma tfString_String_inj:
  assumes "tfString_String T v = tfString_String T v'"
  shows "v = v'"
proof -
  have "v = read_String (tfString_String T v)"
    by (simp only: read_String_tfString_String)
  also have "\<dots> = read_String (tfString_String T v')"
    by (simp only: assms)
  also have "\<dots> = v'"
    by (simp only: read_String_tfString_String)
  finally show ?thesis .
qed

section \<open>The listing of the users data source\<close>

lemma map_users_Users:
  "Users (map_users us state) =
     Users state @ map (\<lambda>u. \<lparr>ID = Int64Value (api_Id u), userModel_Login = StringValue (api_Login u)\<rparr>) us"
  by (induction us arbitrary: state) (simp_all add: Let_def)

lemma map_users_eq:
  "map_users us \<lparr>Users = []\<rparr> =
     \<lparr>Users = map (\<lambda>u. \<lparr>ID = Int64Value (api_Id u), userModel_Login = StringValue (api_Login u)\<rparr>) us\<rparr>"
  using map_users_Users [of us "\<lparr>Users = []\<rparr>"] by simp

text \<open>
  C3: when \<^verbatim>\<open>user/listUsers\<close> returns a sequence of records, \<^verbatim>\<open>Read\<close> of the users data
  source stores one entry (id, login) per record, in the order of the response, and adds
  no diagnostic; for the empty sequence it stores zero entries and reports no error.
\<close>

theorem UsersDataSource_Read_lists_every_record_in_order:
  assumes "Get_user_list A (ds_client d) ''user/listUsers'' = Inr users"
  shows "State (UsersDataSource_Read A d resp) =
           Some \<lparr>Users = map (\<lambda>u. \<lparr>ID = Int64Value (api_Id u),
                                     userModel_Login = StringValue (api_Login u)\<rparr>) users\<rparr>
         \<and> length (Users (the (State (UsersDataSource_Read A d resp)))) = length users
         \<and> Diagnostics (UsersDataSource_Read A d resp) = Diagnostics resp"
  using assms by (simp add: UsersDataSource_Read_def State_Set_def map_users_eq)

theorem UsersDataSource_Read_witness:
  "Get_user_list stub_api (ds_client NewUsersDataSource) ''user/listUsers'' =
     Inr [\<lparr>api_Id = 1, api_Login = ''admin'', Login_UC = ''ADMIN'', Enabled = True\<rparr>,
          \<lparr>api_Id = 2, api_Login = ''sgiertz'', Login_UC = ''SGIERTZ'', Enabled = True\<rparr>]
   \<and> UsersDataSource_Read stub_api NewUsersDataSource \<lparr>Diagnostics = [], State = None\<rparr> =
       \<lparr>Diagnostics = [],
        State = Some \<lparr>Users = [\<lparr>ID = Int64Value 1, userModel_Login = StringValue ''admin''\<rparr>,
                               \<lparr>ID = Int64Value 2, userModel_Login = StringValue ''sgiertz''\<rparr>]\<rparr>\<rparr>
   \<and> Get_user_list recording_api (ds_client NewUsersDataSource) ''user/listUsers'' = Inr []
   \<and> UsersDataSource_Read recording_api NewUsersDataSource \<lparr>Diagnostics = [], State = None\<rparr> =
       \<lparr>Diagnostics = [], State = Some \<lparr>Users = []\<rparr>\<rparr>"
  using UsersDataSource_Read_lists_every_record_in_order [of stub_api NewUsersDataSource
          "[\<lparr>api_Id = 1, api_Login = ''admin'', Login_UC = ''ADMIN'', Enabled = True\<rparr>,
            \<lparr>api_Id = 2, api_Login = ''sgiertz'', Login_UC = ''SGIERTZ'', Enabled = True\<rparr>]"
          "\<lparr>Diagnostics = [], State = None\<rparr>"]
        UsersDataSource_Read_lists_every_record_in_order [of recording_api NewUsersDataSource
          "[]" "\<lparr>Diagnostics = [], State = None\<rparr>"]
  by (simp add: stub_api_def recording_api_def UsersDataSource_Read_def State_Set_def)

section \<open>Create and Read of the user resource\<close>

text \<open>
  C1: a \<^verbatim>\<open>Read\<close> of the user resource whose \<^verbatim>\<open>user/getDetails\<close> call succeeds ends
  without an error and writes a state that has firstname, lastname and email from the
  response, and login and password as they were in the state of the request.
\<close>

theorem Read_refreshes_names_and_email_only:
  assumes "\<not> HasError (Diagnostics resp)"
      and "\<not> HasError (Get_diags (req_State req))"
      and "Get_user_details A (client r)
             (''user/getDetails?login='' @ ValueString (Login (Get_target (req_State req))))
             = Inr this_user"
  shows "fst (userResource_Read P A r req resp) =
           resp\<lparr>Diagnostics := Append (Diagnostics resp) (Get_diags (req_State req)),
                State := Some \<lparr>Login = Login (Get_target (req_State req)),
                               Password = Password (Get_target (req_State req)),
                               FirstName = StringValue (First_name this_user),
                               LastName = StringValue (Last_name this_user),
                               Email = StringValue (details_Email this_user)\<rparr>\<rparr>
         \<and> \<not> HasError (Diagnostics (fst (userResource_Read P A r req resp)))"
  using assms
  by (simp add: userResource_Read_def Get_def State_Set_def Let_def HasError_Append)

theorem Read_refreshes_witness:
  "\<not> HasError (Diagnostics (absent\<lparr>State := Some stale_sgiertz\<rparr>))
   \<and> \<not> HasError (Get_diags (req_State
            \<lparr>req_State = \<lparr>Get_diags = [], Get_target = stale_sgiertz\<rparr>\<rparr>))
   \<and> Get_user_details stub_api (client configured)
        (''user/getDetails?login='' @ ValueString (Login stale_sgiertz)) = Inr details_sgiertz
   \<and> fst (userResource_Read plain_printers stub_api configured
            \<lparr>req_State = \<lparr>Get_diags = [], Get_target = stale_sgiertz\<rparr>\<rparr>
            (absent\<lparr>State := Some stale_sgiertz\<rparr>))
       = \<lparr>Diagnostics = [],
          State = Some \<lparr>Login = StringValue ''sgiertz'', Password = StringValue ''test123'',
                         FirstName = StringValue ''Simone'', LastName = StringValue ''Giertz'',
                         Email = StringValue ''sgiertz@foo.bar''\<rparr>\<rparr>"
  using Read_refreshes_names_and_email_only [of "absent\<lparr>State := Some stale_sgiertz\<rparr>"
          "\<lparr>req_State = \<lparr>Get_diags = [], Get_target = stale_sgiertz\<rparr>\<rparr>"
          stub_api configured details_sgiertz plain_printers]
  by (simp add: stub_api_def absent_def stale_sgiertz_def details_sgiertz_def)

text \<open>
  C2: when the plan is accepted and \<^verbatim>\<open>user/create\<close> succeeds, the state written by
  \<^verbatim>\<open>Create\<close> is the submitted plan, all five fields, whatever else the remote API would
  answer: nothing is read back.
\<close>

theorem Create_success_state_is_plan:
  assumes "\<not> HasError (Diagnostics resp)"
      and "\<not> HasError (Get_diags (Plan req))"
      and "Post_int A (client r) ''user/create''
             [''login'' \<mapsto> ValueString (Login (Get_target (Plan req))),
              ''password'' \<mapsto> ValueString (Password (Get_target (Plan req))),
              ''firstName'' \<mapsto> ValueString (FirstName (Get_target (Plan req))),
              ''lastName'' \<mapsto> ValueString (LastName (Get_target (Plan req))),
              ''email'' \<mapsto> ValueString (Email (Get_target (Plan req)))] = Inr result"
  shows "fst (userResource_Create P A r req resp) =
           resp\<lparr>Diagnostics := Append (Diagnostics resp) (Get_diags (Plan req)),
                State := Some (Get_target (Plan req))\<rparr>"
  using assms
  by (simp add: userResource_Create_def Get_def State_Set_def Let_def HasError_Append)

theorem Create_success_witness:
  "\<not> HasError (Diagnostics absent)
   \<and> \<not> HasError (Get_diags (Plan \<lparr>Plan = \<lparr>Get_diags = [], Get_target = plan_sgiertz\<rparr>\<rparr>))
   \<and> fst (userResource_Create plain_printers stub_api configured
            \<lparr>Plan = \<lparr>Get_diags = [], Get_target = plan_sgiertz\<rparr>\<rparr> absent)
       = \<lparr>Diagnostics = [], State = Some plan_sgiertz\<rparr>"
  using Create_success_state_is_plan [of absent "\<lparr>Plan = \<lparr>Get_diags = [], Get_target = plan_sgiertz\<rparr>\<rparr>"
          stub_api configured 0 plain_printers]
  by (simp add: absent_def stub_api_def)

text \<open>
  C6: when \<^verbatim>\<open>user/create\<close> fails, \<^verbatim>\<open>Create\<close> ends with an error diagnostic and the state
  of the response is the one it was given: no state is written.
\<close>

theorem Create_failure_writes_no_state:
  assumes "Post_int A (client r) ''user/create''
             [''login'' \<mapsto> ValueString (Login (Get_target (Plan req))),
              ''password'' \<mapsto> ValueString (Password (Get_target (Plan req))),
              ''firstName'' \<mapsto> ValueString (FirstName (Get_target (Plan req))),
              ''lastName'' \<mapsto> ValueString (LastName (Get_target (Plan req))),
              ''email'' \<mapsto> ValueString (Email (Get_target (Plan req)))] = Inl err"
  shows "HasError (Diagnostics (fst (userResource_Create P A r req resp)))
         \<and> State (fst (userResource_Create P A r req resp)) = State resp"
  using assms
  by (simp add: userResource_Create_def Get_def Let_def HasError_AddError)

theorem Create_failure_witness:
  "Post_int failing_api (client configured) ''user/create''
             [''login'' \<mapsto> ValueString (Login plan_sgiertz),
              ''password'' \<mapsto> ValueString (Password plan_sgiertz),
              ''firstName'' \<mapsto> ValueString (FirstName plan_sgiertz),
              ''lastName'' \<mapsto> ValueString (LastName plan_sgiertz),
              ''email'' \<mapsto> ValueString (Email plan_sgiertz)] = Inl ''boom''
   \<and> HasError (Diagnostics (fst (userResource_Create plain_printers failing_api configured
            \<lparr>Plan = \<lparr>Get_diags = [], Get_target = plan_sgiertz\<rparr>\<rparr> absent)))
   \<and> State (fst (userResource_Create plain_printers failing_api configured
            \<lparr>Plan = \<lparr>Get_diags = [], Get_target = plan_sgiertz\<rparr>\<rparr> absent)) = None"
  using Create_failure_writes_no_state [of failing_api configured
          "\<lparr>Plan = \<lparr>Get_diags = [], Get_target = plan_sgiertz\<rparr>\<rparr>" "''boom''" plain_printers absent]
  by (simp add: failing_api_def absent_def)

text \<open>
  C7: when \<^verbatim>\<open>user/getDetails\<close> fails, \<^verbatim>\<open>Read\<close> adds one error whose detail holds the
  login of the state and the message of the failure, and leaves the state of the
  response as it was.
\<close>

theorem Read_failure_reports_login_and_cause:
  assumes "\<not> HasError (Diagnostics resp)"
      and "\<not> HasError (Get_diags (req_State req))"
      and "Get_user_details A (client r)
             (''user/getDetails?login='' @ ValueString (Login (Get_target (req_State req))))
             = Inl err"
  shows "Diagnostics (fst (userResource_Read P A r req resp)) =
           Append (Diagnostics resp) (Get_diags (req_State req)) @
           [ErrorDiagnostic ''Error Reading Uyuuni user''
              (''Could not read User '' @ ValueString (Login (Get_target (req_State req)))
                 @ '': '' @ err)]
         \<and> State (fst (userResource_Read P A r req resp)) = State resp"
  using assms
  by (simp add: userResource_Read_def Get_def Let_def HasError_Append AddError_fresh)

theorem Read_failure_witness:
  "\<not> HasError (Diagnostics (absent\<lparr>State := Some plan_sgiertz\<rparr>))
   \<and> \<not> HasError (Get_diags (req_State \<lparr>req_State = \<lparr>Get_diags = [], Get_target = plan_sgiertz\<rparr>\<rparr>))
   \<and> Get_user_details failing_api (client configured)
        (''user/getDetails?login='' @ ValueString (Login plan_sgiertz)) = Inl ''boom''
   \<and> Diagnostics (fst (userResource_Read plain_printers failing_api configured
         \<lparr>req_State = \<lparr>Get_diags = [], Get_target = plan_sgiertz\<rparr>\<rparr>
         (absent\<lparr>State := Some plan_sgiertz\<rparr>)))
       = [ErrorDiagnostic ''Error Reading Uyuuni user'' ''Could not read User sgiertz: boom'']
   \<and> State (fst (userResource_Read plain_printers failing_api configured
         \<lparr>req_State = \<lparr>Get_diags = [], Get_target = plan_sgiertz\<rparr>\<rparr>
         (absent\<lparr>State := Some plan_sgiertz\<rparr>))) = Some plan_sgiertz"
  using Read_failure_reports_login_and_cause [of "absent\<lparr>State := Some plan_sgiertz\<rparr>"
          "\<lparr>req_State = \<lparr>Get_diags = [], Get_target = plan_sgiertz\<rparr>\<rparr>"
          failing_api configured "''boom''" plain_printers]
  by (simp add: failing_api_def absent_def plan_sgiertz_def)

text \<open>
  C8: the diagnostic of a failed \<^verbatim>\<open>user/create\<close> is not the bare message of the failure:
  for the failure \<open>boom\<close> neither its summary nor its detail is \<open>boom\<close>.
\<close>

theorem Create_failure_message_counterexample:
  "Post_int failing_api (client configured) ''user/create''
             [''login'' \<mapsto> ValueString (Login plan_sgiertz),
              ''password'' \<mapsto> ValueString (Password plan_sgiertz),
              ''firstName'' \<mapsto> ValueString (FirstName plan_sgiertz),
              ''lastName'' \<mapsto> ValueString (LastName plan_sgiertz),
              ''email'' \<mapsto> ValueString (Email plan_sgiertz)] = Inl ''boom''
   \<and> Diagnostics (fst (userResource_Create plain_printers failing_api configured
            \<lparr>Plan = \<lparr>Get_diags = [], Get_target = plan_sgiertz\<rparr>\<rparr> absent))
       = [ErrorDiagnostic ''Error creating user'' ''Could not create user, unexpected error: boom'']
   \<and> Detail (ErrorDiagnostic ''Error creating user'' ''Could not create user, unexpected error: boom'')
       \<noteq> ''boom''
   \<and> Summary (ErrorDiagnostic ''Error creating user'' ''Could not create user, unexpected error: boom'')
       \<noteq> ''boom''"
  by (simp add: userResource_Create_def Get_def Let_def failing_api_def absent_def AddError_def)

text \<open>
  C8, as amended: when \<^verbatim>\<open>user/create\<close> fails, \<^verbatim>\<open>Create\<close> adds one error with the summary
  \<open>Error creating user\<close> whose detail is the fixed text
  \<open>Could not create user, unexpected error: \<close> followed by the message of the failure,
  unchanged.
\<close>

theorem Create_failure_message_wraps_cause:
  assumes "\<not> HasError (Diagnostics resp)"
      and "\<not> HasError (Get_diags (Plan req))"
      and "Post_int A (client r) ''user/create''
             [''login'' \<mapsto> ValueString (Login (Get_target (Plan req))),
              ''password'' \<mapsto> ValueString (Password (Get_target (Plan req))),
              ''firstName'' \<mapsto> ValueString (FirstName (Get_target (Plan req))),
              ''lastName'' \<mapsto> ValueString (LastName (Get_target (Plan req))),
              ''email'' \<mapsto> ValueString (Email (Get_target (Plan req)))] = Inl err"
  shows "Diagnostics (fst (userResource_Create P A r req resp)) =
           Append (Diagnostics resp) (Get_diags (Plan req)) @
           [ErrorDiagnostic ''Error creating user''
              (''Could not create user, unexpected error: '' @ err)]"
  using assms
  by (simp add: userResource_Create_def Get_def Let_def HasError_Append AddError_fresh)

theorem Create_failure_message_witness:
  "\<not> HasError (Diagnostics absent)
   \<and> \<not> HasError (Get_diags (Plan \<lparr>Plan = \<lparr>Get_diags = [WarningDiagnostic ''w'' ''d''], Get_target = plan_sgiertz\<rparr>\<rparr>))
   \<and> Post_int failing_api (client configured) ''user/create''
             [''login'' \<mapsto> ValueString (Login plan_sgiertz),
              ''password'' \<mapsto> ValueString (Password plan_sgiertz),
              ''firstName'' \<mapsto> ValueString (FirstName plan_sgiertz),
              ''lastName'' \<mapsto> ValueString (LastName plan_sgiertz),
              ''email'' \<mapsto> ValueString (Email plan_sgiertz)] = Inl ''boom''
   \<and> Diagnostics (fst (userResource_Create plain_printers failing_api configured
            \<lparr>Plan = \<lparr>Get_diags = [WarningDiagnostic ''w'' ''d''], Get_target = plan_sgiertz\<rparr>\<rparr> absent))
       = [WarningDiagnostic ''w'' ''d'',
          ErrorDiagnostic ''Error creating user'' ''Could not create user, unexpected error: boom'']"
  using Create_failure_message_wraps_cause [of absent
          "\<lparr>Plan = \<lparr>Get_diags = [WarningDiagnostic ''w'' ''d''], Get_target = plan_sgiertz\<rparr>\<rparr>"
          failing_api configured "''boom''" plain_printers]
  by (simp add: failing_api_def absent_def)

text \<open>The first two log entries of a \<^verbatim>\<open>Create\<close> that reaches the remote call.\<close>

lemma Create_log_prefix:
  assumes "\<not> HasError (Diagnostics resp)" and "\<not> HasError (Get_diags (Plan req))"
  shows "\<exists>rest. snd (userResource_Create P A r req resp) =
           (Info, ''About to create user'') #
           (Info, tfString_String (IsPrint_table P) (Login (Get_target (Plan req))) @ '' - ''
                  @ tfString_String (IsPrint_table P) (Password (Get_target (Plan req))) @ '' - ''
                  @ tfString_String (IsPrint_table P) (FirstName (Get_target (Plan req))) @ '' - ''
                  @ tfString_String (IsPrint_table P) (LastName (Get_target (Plan req))) @ '' - ''
                  @ tfString_String (IsPrint_table P) (Email (Get_target (Plan req)))) # rest"
  using assms
  by (simp add: userResource_Create_def Get_def State_Set_def Let_def HasError_Append
           split: sum.splits)

text \<open>
  C9: a \<^verbatim>\<open>Create\<close> that processes a plan writes to the log a line that holds the
  password field as \<^verbatim>\<open>String()\<close> prints it. The password is read back from that text;
  a known password whose characters need no escape stands in it as it is, between
  double quotes. Two runs whose plans differ only in the password write different
  logs, whatever the remote API answers.
\<close>

theorem Create_log_depends_on_password:
  assumes "\<not> HasError (Diagnostics resp)" and "\<not> HasError (Get_diags (Plan req))"
      and "\<not> HasError (Diagnostics resp')" and "\<not> HasError (Get_diags (Plan req'))"
      and "Get_target (Plan req') = (Get_target (Plan req))\<lparr>Password := password'\<rparr>"
      and "password' \<noteq> Password (Get_target (Plan req))"
  shows "(Info, tfString_String (IsPrint_table P) (Login (Get_target (Plan req))) @ '' - ''
                  @ tfString_String (IsPrint_table P) (Password (Get_target (Plan req))) @ '' - ''
                  @ tfString_String (IsPrint_table P) (FirstName (Get_target (Plan req))) @ '' - ''
                  @ tfString_String (IsPrint_table P) (LastName (Get_target (Plan req))) @ '' - ''
                  @ tfString_String (IsPrint_table P) (Email (Get_target (Plan req))))
           \<in> set (snd (userResource_Create P A r req resp))
         \<and> read_String (tfString_String (IsPrint_table P) (Password (Get_target (Plan req))))
             = Password (Get_target (Plan req))
         \<and> (Password (Get_target (Plan req)) = StringValue s \<and> list_all plain s \<longrightarrow>
              tfString_String (IsPrint_table P) (Password (Get_target (Plan req)))
                = [CHR 0x22] @ s @ [CHR 0x22])
         \<and> snd (userResource_Create P A' r' req' resp') \<noteq> snd (userResource_Create P A r req resp)"
proof -
  obtain rest where log: "snd (userResource_Create P A r req resp) =
           (Info, ''About to create user'') #
           (Info, tfString_String (IsPrint_table P) (Login (Get_target (Plan req))) @ '' - ''
                  @ tfString_String (IsPrint_table P) (Password (Get_target (Plan req))) @ '' - ''
                  @ tfString_String (IsPrint_table P) (FirstName (Get_target (Plan req))) @ '' - ''
                  @ tfString_String (IsPrint_table P) (LastName (Get_target (Plan req))) @ '' - ''
                  @ tfString_String (IsPrint_table P) (Email (Get_target (Plan req)))) # rest"
    using Create_log_prefix [OF assms(1,2)] by blast
  obtain rest' where log': "snd (userResource_Create P A' r' req' resp') =
           (Info, ''About to create user'') #
           (Info, tfString_String (IsPrint_table P) (Login (Get_target (Plan req'))) @ '' - ''
                  @ tfString_String (IsPrint_table P) (Password (Get_target (Plan req'))) @ '' - ''
                  @ tfString_String (IsPrint_table P) (FirstName (Get_target (Plan req'))) @ '' - ''
                  @ tfString_String (IsPrint_table P) (LastName (Get_target (Plan req'))) @ '' - ''
                  @ tfString_String (IsPrint_table P) (Email (Get_target (Plan req')))) # rest'"
    using Create_log_prefix [OF assms(3,4)] by blast
  have differ: "tfString_String (IsPrint_table P) password'
                  \<noteq> tfString_String (IsPrint_table P) (Password (Get_target (Plan req)))"
    using assms(6) tfString_String_inj by blast
  have "snd (userResource_Create P A' r' req' resp') \<noteq> snd (userResource_Create P A r req resp)"
    using differ by (simp add: log log' assms(5))
  moreover have "(Info, tfString_String (IsPrint_table P) (Login (Get_target (Plan req))) @ '' - ''
                  @ tfString_String (IsPrint_table P) (Password (Get_target (Plan req))) @ '' - ''
                  @ tfString_String (IsPrint_table P) (FirstName (Get_target (Plan req))) @ '' - ''
                  @ tfString_String (IsPrint_table P) (LastName (Get_target (Plan req))) @ '' - ''
                  @ tfString_String (IsPrint_table P) (Email (Get_target (Plan req))))
           \<in> set (snd (userResource_Create P A r req resp))"
    by (simp add: log)
  ultimately show ?thesis
    by (auto simp add: read_String_tfString_String tfString_String_plain
             simp del: tfString_String.simps)
qed

theorem Create_log_witness:
  "\<not> HasError (Diagnostics absent)
   \<and> \<not> HasError (Get_diags (Plan \<lparr>Plan = \<lparr>Get_diags = [], Get_target = plan_sgiertz\<rparr>\<rparr>))
   \<and> \<not> HasError (Get_diags (Plan \<lparr>Plan = \<lparr>Get_diags = [],
          Get_target = plan_sgiertz\<lparr>Password := StringValue ''test124''\<rparr>\<rparr>\<rparr>))
   \<and> StringValue ''test124'' \<noteq> Password plan_sgiertz
   \<and> Password plan_sgiertz = StringValue ''test123'' \<and> list_all plain ''test123''
   \<and> (Info, [CHR 0x22] @ ''sgiertz'' @ [CHR 0x22] @ '' - '' @ [CHR 0x22] @ ''test123'' @ [CHR 0x22]
             @ '' - '' @ [CHR 0x22] @ ''Simone'' @ [CHR 0x22] @ '' - '' @ [CHR 0x22] @ ''Giertz''
             @ [CHR 0x22] @ '' - '' @ [CHR 0x22] @ ''sgiertz@foo.bar'' @ [CHR 0x22])
        \<in> set (snd (userResource_Create plain_printers failing_api configured
                      \<lparr>Plan = \<lparr>Get_diags = [], Get_target = plan_sgiertz\<rparr>\<rparr> absent))
   \<and> read_String ([CHR 0x22] @ ''test123'' @ [CHR 0x22]) = StringValue ''test123''
   \<and> snd (userResource_Create plain_printers stub_api configured
            \<lparr>Plan = \<lparr>Get_diags = [],
                      Get_target = plan_sgiertz\<lparr>Password := StringValue ''test124''\<rparr>\<rparr>\<rparr> absent)
       \<noteq> snd (userResource_Create plain_printers failing_api configured
            \<lparr>Plan = \<lparr>Get_diags = [], Get_target = plan_sgiertz\<rparr>\<rparr> absent)"
proof -
  have plain: "list_all plain ''sgiertz''" "list_all plain ''test123''" "list_all plain ''Simone''"
    "list_all plain ''Giertz''" "list_all plain ''sgiertz@foo.bar''"
    by (simp_all add: plain_def)
  show ?thesis
    using Create_log_depends_on_password [of absent
            "\<lparr>Plan = \<lparr>Get_diags = [], Get_target = plan_sgiertz\<rparr>\<rparr>" absent
            "\<lparr>Plan = \<lparr>Get_diags = [],
                      Get_target = plan_sgiertz\<lparr>Password := StringValue ''test124''\<rparr>\<rparr>\<rparr>"
            "StringValue ''test124''" plain_printers failing_api configured "''test123''"
            stub_api configured]
          plain
    by (simp add: absent_def plan_sgiertz_def tfString_String_plain
             del: tfString_String.simps)
qed

section \<open>Configure of the resource and of the data source\<close>

text \<open>
  C10: with nil provider data, \<^verbatim>\<open>Configure\<close> of the user resource and of the users data
  source adds no diagnostic and leaves the client handle as it was, unset on a new
  resource; with provider data of another type than \<^verbatim>\<open>*api.HTTPClient\<close> it adds the
  error \<open>Unexpected Data Source Configure Type\<close> and likewise leaves the handle.
\<close>

theorem Configure_without_client_leaves_handle_unset:
  "userResource_Configure r NilData resp = (r, resp)
   \<and> UsersDataSource_Configure d NilData resp = (d, resp)
   \<and> userResource_Configure r (OtherData T) resp =
       (r, resp\<lparr>Diagnostics := AddError (Diagnostics resp)
                 ''Unexpected Data Source Configure Type''
                 (''Expected *uyuni.client, got: '' @ T @
                  ''. Please report this issue to the provider developers.'')\<rparr>)
   \<and> UsersDataSource_Configure d (OtherData T) resp =
       (d, resp\<lparr>Diagnostics := AddError (Diagnostics resp)
                 ''Unexpected Data Source Configure Type''
                 (''Expected *api.HTTPClient, got: '' @ T @
                  ''. Please report this issue to the provider developers.'')\<rparr>)
   \<and> HasError (Diagnostics (snd (userResource_Configure r (OtherData T) resp)))
   \<and> HasError (Diagnostics (snd (UsersDataSource_Configure d (OtherData T) resp)))
   \<and> map Summary (Diagnostics (snd (userResource_Configure r (OtherData T) \<lparr>Diagnostics = []\<rparr>)))
       = [''Unexpected Data Source Configure Type'']
   \<and> map Summary (Diagnostics (snd (UsersDataSource_Configure d (OtherData T) \<lparr>Diagnostics = []\<rparr>)))
       = [''Unexpected Data Source Configure Type'']
   \<and> client (fst (userResource_Configure NewUserResource NilData resp)) = None
   \<and> ds_client (fst (UsersDataSource_Configure NewUsersDataSource NilData resp)) = None
   \<and> client (fst (userResource_Configure NewUserResource (OtherData T) resp)) = None
   \<and> ds_client (fst (UsersDataSource_Configure NewUsersDataSource (OtherData T) resp)) = None"
proof (intro conjI)
  show "userResource_Configure r NilData resp = (r, resp)"
    by (simp add: userResource_Configure_def)
  show "UsersDataSource_Configure d NilData resp = (d, resp)"
    by (simp add: UsersDataSource_Configure_def)
  show "HasError (Diagnostics (snd (userResource_Configure r (OtherData T) resp)))"
    by (simp add: userResource_Configure_def HasError_AddError)
  show "HasError (Diagnostics (snd (UsersDataSource_Configure d (OtherData T) resp)))"
    by (simp add: UsersDataSource_Configure_def HasError_AddError)
qed (simp_all add: userResource_Configure_def UsersDataSource_Configure_def
       NewUserResource_def NewUsersDataSource_def AddError_def)

section \<open>Configure of the provider\<close>

text \<open>
  C4: in \<^verbatim>\<open>Configure\<close> of the provider each of host, username and password is the
  configuration value when that is not null and the value of \<^verbatim>\<open>UYUNI_HOST\<close>,
  \<^verbatim>\<open>UYUNI_USERNAME\<close> or \<^verbatim>\<open>UYUNI_PASSWORD\<close> when it is null. These three values
  decide the rest: an empty one is reported as missing, and otherwise the client is
  initialised with exactly these three values.
\<close>

theorem Configure_resolves_config_then_environment:
  assumes "\<not> HasError (Diagnostics resp)"
      and "\<not> HasError (Get_diags (Config req))"
      and "\<not> IsUnknown (Host (Get_target (Config req)))"
      and "\<not> IsUnknown (Username (Get_target (Config req)))"
      and "\<not> IsUnknown (config_Password (Get_target (Config req)))"
      and "host = (if IsNull (Host (Get_target (Config req))) then Getenv env ''UYUNI_HOST''
                   else ValueString (Host (Get_target (Config req))))"
      and "username = (if IsNull (Username (Get_target (Config req)))
                       then Getenv env ''UYUNI_USERNAME''
                       else ValueString (Username (Get_target (Config req))))"
      and "password = (if IsNull (config_Password (Get_target (Config req)))
                       then Getenv env ''UYUNI_PASSWORD''
                       else ValueString (config_Password (Get_target (Config req))))"
  shows "fst (uyuniProvider_Configure A env req resp) =
           (if host = [] \<or> username = [] \<or> password = [] then
              resp\<lparr>Diagnostics :=
                Append (Diagnostics resp) (Get_diags (Config req))
                @ (if host = [] then
                     [AttributeErrorDiagnostic ''host'' ''Missing Uyuni API Host''
                        Missing_Host_detail]
                   else [])
                @ (if username = [] then
                     [AttributeErrorDiagnostic ''username'' ''Missing Uyuni API Username''
                        Missing_Username_detail]
                   else [])
                @ (if password = [] then
                     [AttributeErrorDiagnostic ''password'' ''Missing Uyuni API Password''
                        Missing_Password_detail]
                   else [])\<rparr>
            else
              (case Init A \<lparr>Server = host, User = username, conn_Password = password,
                             CAcert = [], Insecure = True\<rparr> of
                 Inl err \<Rightarrow>
                   resp\<lparr>Diagnostics :=
                     Append (Diagnostics resp) (Get_diags (Config req))
                     @ [ErrorDiagnostic ''Unable to Create Uyuni API Client''
                          (Client_Error_detail @ err)]\<rparr>
               | Inr c \<Rightarrow>
                   resp\<lparr>Diagnostics := Append (Diagnostics resp) (Get_diags (Config req)),
                        DataSourceData := HTTPClient_ptr c,
                        ResourceData := HTTPClient_ptr c\<rparr>))"
proof -
  have host: "(if \<not> IsNull (Host (Get_target (Config req)))
               then ValueString (Host (Get_target (Config req)))
               else Getenv env ''UYUNI_HOST'') = host"
    using assms(6) by simp
  have username: "(if \<not> IsNull (Username (Get_target (Config req)))
                   then ValueString (Username (Get_target (Config req)))
                   else Getenv env ''UYUNI_USERNAME'') = username"
    using assms(7) by simp
  have password: "(if \<not> IsNull (config_Password (Get_target (Config req)))
                   then ValueString (config_Password (Get_target (Config req)))
                   else Getenv env ''UYUNI_PASSWORD'') = password"
    using assms(8) by simp
  have base: "\<not> HasError (Append (Diagnostics resp) (Get_diags (Config req)))"
    using assms(1,2) by (simp add: HasError_Append)
  have notin: "\<And>path summary detail.
      AttributeErrorDiagnostic path summary detail
        \<notin> set (Append (Diagnostics resp) (Get_diags (Config req)))"
    using error_notin [OF base] by simp
  show ?thesis
  proof (cases "host = [] \<or> username = [] \<or> password = []")
    case True
    then show ?thesis
      using base assms(3-5)
      by (cases "host = []"; cases "username = []"; cases "password = []")
         (simp_all add: uyuniProvider_Configure_def Get_def Let_def
            host username password AddAttributeError_new notin HasError_append)
  next
    case False
    then have nonempty: "host \<noteq> []" "username \<noteq> []" "password \<noteq> []"
      by simp_all
    show ?thesis
    proof (cases "Init A \<lparr>Server = host, User = username, conn_Password = password,
                             CAcert = [], Insecure = True\<rparr>")
      case (Inl err)
      then show ?thesis
        using base assms(3-5) nonempty
        by (simp add: uyuniProvider_Configure_def Get_def Let_def
              host username password AddError_fresh)
    next
      case (Inr c)
      then show ?thesis
        using base assms(3-5) nonempty
        by (simp add: uyuniProvider_Configure_def Get_def Let_def
              host username password)
    qed
  qed
qed

theorem Configure_resolves_witness:
  "\<not> HasError (Diagnostics fresh)
   \<and> Getenv [''UYUNI_USERNAME'' \<mapsto> ''u'', ''UYUNI_PASSWORD'' \<mapsto> ''p''] ''UYUNI_USERNAME'' = ''u''
   \<and> Getenv [''UYUNI_USERNAME'' \<mapsto> ''u'', ''UYUNI_PASSWORD'' \<mapsto> ''p''] ''UYUNI_PASSWORD'' = ''p''
   \<and> fst (uyuniProvider_Configure recording_api
            [''UYUNI_USERNAME'' \<mapsto> ''u'', ''UYUNI_PASSWORD'' \<mapsto> ''p'']
            \<lparr>Config = \<lparr>Get_diags = [],
                        Get_target = \<lparr>Host = StringValue ''h'', Username = StringNull,
                                       config_Password = StringNull\<rparr>\<rparr>\<rparr>
            fresh)
       = \<lparr>Diagnostics = [],
          DataSourceData = HTTPClient_ptr (Some \<lparr>Server = ''h'', User = ''u'',
                             conn_Password = ''p'', CAcert = [], Insecure = True\<rparr>),
          ResourceData = HTTPClient_ptr (Some \<lparr>Server = ''h'', User = ''u'',
                             conn_Password = ''p'', CAcert = [], Insecure = True\<rparr>)\<rparr>"
  using Configure_resolves_config_then_environment [of fresh
          "\<lparr>Config = \<lparr>Get_diags = [],
                        Get_target = \<lparr>Host = StringValue ''h'', Username = StringNull,
                                       config_Password = StringNull\<rparr>\<rparr>\<rparr>"
          "''h''" "[''UYUNI_USERNAME'' \<mapsto> ''u'', ''UYUNI_PASSWORD'' \<mapsto> ''p'']"
          "''u''" "''p''" recording_api]
  by (simp add: fresh_def recording_api_def Getenv_def)

text \<open>
  C5: with host, username and password null in the configuration and the three
  environment variables unset, \<^verbatim>\<open>Configure\<close> of the provider adds the three
  missing-value errors, for host, username and password, and sets no client, whatever
  the client library would do.
\<close>

theorem Configure_reports_all_three_missing_values:
  assumes "\<not> HasError (Diagnostics resp)"
      and "\<not> HasError (Get_diags (Config req))"
      and "Get_target (Config req) =
             \<lparr>Host = StringNull, Username = StringNull, config_Password = StringNull\<rparr>"
      and "env ''UYUNI_HOST'' = None"
      and "env ''UYUNI_USERNAME'' = None"
      and "env ''UYUNI_PASSWORD'' = None"
  shows "fst (uyuniProvider_Configure A env req resp) =
           resp\<lparr>Diagnostics :=
             Append (Diagnostics resp) (Get_diags (Config req)) @
             [AttributeErrorDiagnostic ''host'' ''Missing Uyuni API Host''
                Missing_Host_detail,
              AttributeErrorDiagnostic ''username'' ''Missing Uyuni API Username''
                Missing_Username_detail,
              AttributeErrorDiagnostic ''password'' ''Missing Uyuni API Password''
                Missing_Password_detail]\<rparr>"
proof -
  have base: "\<not> HasError (Append (Diagnostics resp) (Get_diags (Config req)))"
    using assms(1,2) by (simp add: HasError_Append)
  have notin: "\<And>path summary detail.
      AttributeErrorDiagnostic path summary detail
        \<notin> set (Append (Diagnostics resp) (Get_diags (Config req)))"
    using error_notin [OF base] by simp
  show ?thesis
    using base assms(3-6)
    by (simp add: uyuniProvider_Configure_def Get_def Let_def Getenv_def
          AddAttributeError_new notin HasError_append)
qed

theorem Configure_missing_witness:
  "\<not> HasError (Diagnostics fresh)
   \<and> map Summary (Diagnostics (fst (uyuniProvider_Configure recording_api Map.empty
        \<lparr>Config = \<lparr>Get_diags = [],
                    Get_target = \<lparr>Host = StringNull, Username = StringNull,
                                   config_Password = StringNull\<rparr>\<rparr>\<rparr> fresh)))
       = [''Missing Uyuni API Host'', ''Missing Uyuni API Username'',
          ''Missing Uyuni API Password'']
   \<and> DataSourceData (fst (uyuniProvider_Configure recording_api Map.empty
        \<lparr>Config = \<lparr>Get_diags = [],
                    Get_target = \<lparr>Host = StringNull, Username = StringNull,
                                   config_Password = StringNull\<rparr>\<rparr>\<rparr> fresh)) = NilData
   \<and> ResourceData (fst (uyuniProvider_Configure recording_api Map.empty
        \<lparr>Config = \<lparr>Get_diags = [],
                    Get_target = \<lparr>Host = StringNull, Username = StringNull,
                                   config_Password = StringNull\<rparr>\<rparr>\<rparr> fresh)) = NilData"
  using Configure_reports_all_three_missing_values [of fresh
          "\<lparr>Config = \<lparr>Get_diags = [],
                    Get_target = \<lparr>Host = StringNull, Username = StringNull,
                                   config_Password = StringNull\<rparr>\<rparr>\<rparr>" Map.empty recording_api]
  by (simp add: fresh_def)

end
